theory Spec2Isabelle
  imports Complex_Main "HOL-Library.Sublist"
begin

section \<open>Paste classifier: \<open>TrackingService.detectPaste\<close>\<close>

text \<open>
  The three arguments are JavaScript numbers that only ever hold integers:
  \<open>charactersAdded\<close> is a sum of string lengths, \<open>linesAdded\<close> a count of newline
  characters and \<open>timeSinceLastChange\<close> a difference of two \<open>Date.now()\<close> readings
  (negative when the clock steps back). They are modelled as \<open>int\<close>. The result
  \<open>True\<close> means paste, \<open>False\<close> means typing. The branches are those of the
  source, in the source's order. The parameter \<open>linesAdded\<close> has the default 0; the one
  call of the function passes all three arguments.
\<close>

definition detectPaste :: "int \<Rightarrow> int \<Rightarrow> int \<Rightarrow> bool" where
  "detectPaste charactersAdded timeSinceLastChange linesAdded =
     (if charactersAdded \<le> 30 then False
      else if linesAdded \<ge> 3 \<and> timeSinceLastChange < 50 then True
      else if charactersAdded > 300 then True
      else if charactersAdded > 150 \<and> timeSinceLastChange < 20 then True
      else if charactersAdded > 100 \<and> timeSinceLastChange < 10 then True
      else if charactersAdded > 50 \<and> timeSinceLastChange < 5 then True
      else False)"

subsection \<open>The decision rule as the specification words it\<close>

datatype verdict = Typing | Paste

type_synonym rule = "(int \<Rightarrow> int \<Rightarrow> int \<Rightarrow> bool) \<times> verdict"

text \<open>
  The numbered rules of the specification, each a condition on
  (charactersAdded, gap, linesAdded) with its verdict.
\<close>

definition spec_rules :: "rule list" where
  "spec_rules =
     [(\<lambda>c g l. c \<le> 30, Typing),
      (\<lambda>c g l. l \<ge> 3 \<and> g < 50, Paste),
      (\<lambda>c g l. c > 300, Paste),
      (\<lambda>c g l. c > 150 \<and> g < 20, Paste),
      (\<lambda>c g l. c > 100 \<and> g < 10, Paste),
      (\<lambda>c g l. c > 50 \<and> g < 5, Paste)]"

text \<open>First match wins; when no rule matches the verdict is typing (rule 7).\<close>

fun first_match :: "rule list \<Rightarrow> int \<Rightarrow> int \<Rightarrow> int \<Rightarrow> verdict" where
  "first_match [] c g l = Typing"
| "first_match ((cond, v) # rs) c g l = (if cond c g l then v else first_match rs c g l)"

definition spec_classify :: "int \<Rightarrow> int \<Rightarrow> int \<Rightarrow> verdict" where
  "spec_classify c g l = first_match spec_rules c g l"

section \<open>Skill analysis: \<open>SkillAnalysisService\<close>\<close>

text \<open>
  JavaScript numbers that hold counts and millisecond totals are modelled as \<open>int\<close>,
  numbers produced by a division as \<open>real\<close> (doubles idealised as exact reals, so
  \<open>Math.round x\<close> is \<open>\<lfloor>x + 1/2\<rfloor>\<close>). The divisions that compute the ratios and rates are guarded
  by a test that their denominator is positive, and the guards are kept in the model.
\<close>

subsection \<open>Data model (\<open>skill.types.ts\<close>, \<open>tracking.types.ts\<close>)\<close>

datatype SkillLevel = BEGINNER | INTERMEDIATE | ADVANCED | EXPERT

datatype SkillCategory =
  CODING_PROFICIENCY | PROBLEM_SOLVING | FOCUS_CONSISTENCY | CODE_QUALITY | LANGUAGE_VERSATILITY

text \<open>
  \<open>SkillScore.description\<close> is a formatted message that no other field depends on; it
  is left out of the record.
\<close>

record SkillScore =
  category :: SkillCategory
  score :: int
  level :: SkillLevel

record SkillProfile =
  overallScore :: int
  overallLevel :: SkillLevel
  categoryScores :: "SkillScore list"
  strengths :: "string list"
  weaknesses :: "string list"

datatype Priority = High | Medium | Low

datatype ResourceType = Article | Video | Course | Documentation | Practice

record LearningResource =
  title :: string
  rtype :: ResourceType
  url :: string

record Recommendation =
  rec_category :: SkillCategory
  priority :: Priority
  issue :: string
  suggestion :: string
  learningResources :: "LearningResource list"

text \<open>Per-file counters; the fields of \<open>FileMetrics\<close>, prefixed with \<open>fm_\<close>.\<close>

record FileMetrics =
  fm_file :: string
  fm_language :: string
  fm_firstSeen :: int
  fm_lastActive :: int
  fm_keystrokeCount :: int
  fm_pasteCount :: int
  fm_typingToTotalRatio :: real
  fm_linesAdded :: int
  fm_linesDeleted :: int
  fm_editCount :: int
  fm_averageEditSize :: real
  fm_activeTimeMs :: int
  fm_idleTimeMs :: int
  fm_totalTimeMs :: int
  fm_switchToCount :: int
  fm_switchFromCount :: int
  fm_openCount :: int
  fm_codeAnalysisCount :: int
  fm_lastAnalysisTimestamp :: "int option"

record BehavioralMetrics =
  typingToTotalRatio :: real
  averageTypingSpeed :: real
  keystrokeCount :: int
  pasteCount :: int
  editCount :: int
  linesAdded :: int
  linesDeleted :: int
  backspaceRatio :: real
  activeTimeMs :: int
  idleTimeMs :: int
  focusRatio :: real
  languages :: "string list"
  primaryLanguage :: string
  languageDistribution :: "(string \<times> real) list"
  fileCount :: int
  averageFileActiveTime :: real
  fileSwitchCount :: int

subsection \<open>\<open>extractBehavioralMetrics\<close>\<close>

text \<open>
  \<open>languageDistribution\<close> is a JavaScript object used as a dictionary. Its keys are
  language names, never array-index strings, so \<open>Object.keys\<close> lists them in insertion
  order: the object is an association list, a new key going to the end.
  \<open>countLanguage d l\<close> is the statement \<open>d[l] = (d[l] || 0) + 1\<close>.
\<close>

fun countLanguage :: "(string \<times> int) list \<Rightarrow> string \<Rightarrow> (string \<times> int) list" where
  "countLanguage [] l = [(l, 1)]"
| "countLanguage ((k, n) # d) l =
     (if k = l then (k, n + 1) # d else (k, n) # countLanguage d l)"

text \<open>
  \<open>d[a] > d[b]\<close>: a missing key reads \<open>undefined\<close>, and a comparison with
  \<open>undefined\<close> is false.
\<close>

definition countGreater :: "(string \<times> int) list \<Rightarrow> string \<Rightarrow> string \<Rightarrow> bool" where
  "countGreater d a b =
     (case (map_of d a, map_of d b) of (Some x, Some y) \<Rightarrow> x > y | _ \<Rightarrow> False)"

text \<open>
  \<open>languages.reduce((a, b) => d[a] > d[b] ? a : b, languages[0] || 'unknown')\<close>; the
  empty string is falsy, so it too is replaced by \<open>'unknown'\<close> as the start value.
\<close>

definition pickPrimaryLanguage :: "(string \<times> int) list \<Rightarrow> string list \<Rightarrow> string" where
  "pickPrimaryLanguage d ls =
     foldl (\<lambda>a b. if countGreater d a b then a else b)
       (case ls of [] \<Rightarrow> ''unknown'' | l # _ \<Rightarrow> if l = [] then ''unknown'' else l) ls"

definition extractBehavioralMetrics :: "FileMetrics list \<Rightarrow> int \<Rightarrow> int \<Rightarrow> BehavioralMetrics" where
  "extractBehavioralMetrics files totalActiveTime totalIdleTime =
     (let keystrokes = sum_list (map fm_keystrokeCount files);
          pastes = sum_list (map fm_pasteCount files);
          added = sum_list (map fm_linesAdded files);
          deleted = sum_list (map fm_linesDeleted files);
          edits = sum_list (map fm_editCount files);
          totalInput = keystrokes + pastes;
          dist = foldl countLanguage [] (map fm_language files);
          langs = map fst dist;
          totalFiles = int (length files);
          activeMinutes = real_of_int totalActiveTime / 60000
      in \<lparr> typingToTotalRatio =
             (if totalInput > 0 then real_of_int keystrokes / real_of_int totalInput else 0),
           averageTypingSpeed =
             (if activeMinutes > 0 then real_of_int keystrokes / activeMinutes else 0),
           keystrokeCount = keystrokes,
           pasteCount = pastes,
           editCount = edits,
           linesAdded = added,
           linesDeleted = deleted,
           backspaceRatio = (if added > 0 then real_of_int deleted / real_of_int added else 0),
           activeTimeMs = totalActiveTime,
           idleTimeMs = totalIdleTime,
           focusRatio =
             (if totalActiveTime + totalIdleTime > 0
              then real_of_int totalActiveTime / real_of_int (totalActiveTime + totalIdleTime)
              else 0),
           languages = langs,
           primaryLanguage = pickPrimaryLanguage dist langs,
           languageDistribution =
             map (\<lambda>(l, n). (l, real_of_int n / real_of_int totalFiles * 100)) dist,
           fileCount = totalFiles,
           averageFileActiveTime =
             (if totalFiles > 0
              then real_of_int (sum_list (map fm_activeTimeMs files)) / real_of_int totalFiles
              else 0),
           fileSwitchCount = sum_list (map (\<lambda>f. fm_switchToCount f + fm_switchFromCount f) files) \<rparr>)"

subsection \<open>\<open>calculateCategoryScores\<close>, \<open>buildSkillProfile\<close>\<close>

definition Math_round :: "real \<Rightarrow> int" where
  "Math_round x = \<lfloor>x + 1 / 2\<rfloor>"

definition scoreToLevel :: "int \<Rightarrow> SkillLevel" where
  "scoreToLevel s =
     (if s \<ge> 80 then EXPERT else if s \<ge> 60 then ADVANCED
      else if s \<ge> 40 then INTERMEDIATE else BEGINNER)"

definition mkScore :: "SkillCategory \<Rightarrow> int \<Rightarrow> SkillScore" where
  "mkScore c s = \<lparr> category = c, score = s, level = scoreToLevel s \<rparr>"

definition calculateCategoryScores :: "BehavioralMetrics \<Rightarrow> SkillScore list" where
  "calculateCategoryScores metrics =
     (let codingScore = Math_round (typingToTotalRatio metrics * 100);
          activeMinutes = real_of_int (activeTimeMs metrics) / 60000;
          editsPerMinute =
            (if activeMinutes > 0 then real_of_int (editCount metrics) / activeMinutes else 0);
          problemSolvingScore = max 0 (Math_round (100 - editsPerMinute * 10));
          focusScore = Math_round (focusRatio metrics * 100);
          qualityScore = max 0 (Math_round ((1 - backspaceRatio metrics) * 100));
          versatilityScore = min 100 (int (length (languages metrics)) * 20)
      in [mkScore CODING_PROFICIENCY codingScore,
          mkScore PROBLEM_SOLVING problemSolvingScore,
          mkScore FOCUS_CONSISTENCY focusScore,
          mkScore CODE_QUALITY qualityScore,
          mkScore LANGUAGE_VERSATILITY versatilityScore])"

definition categoryToString :: "SkillCategory \<Rightarrow> string" where
  "categoryToString c =
     (case c of
        CODING_PROFICIENCY \<Rightarrow> ''Coding Proficiency''
      | PROBLEM_SOLVING \<Rightarrow> ''Problem Solving''
      | FOCUS_CONSISTENCY \<Rightarrow> ''Focus & Consistency''
      | CODE_QUALITY \<Rightarrow> ''Code Quality''
      | LANGUAGE_VERSATILITY \<Rightarrow> ''Language Versatility'')"

text \<open>
  \<open>Array.prototype.sort\<close> is stable, and so is \<open>sort_key\<close>: \<open>sort_key score\<close> is
  the sort with comparator \<open>a.score - b.score\<close>, \<open>sort_key (\<lambda>s. - score s)\<close> the one
  with \<open>b.score - a.score\<close>. \<open>slice(0, 2)\<close> is \<open>take 2\<close> and \<open>slice(-2)\<close> drops all
  but the last two. The mean divides by the number of scores, which is 5 for the list
  \<open>calculateCategoryScores\<close> builds (for an empty list JavaScript would give NaN).
\<close>

definition buildSkillProfile :: "SkillScore list \<Rightarrow> SkillProfile" where
  "buildSkillProfile cs =
     (let overall = Math_round (real_of_int (sum_list (map score cs)) / real (length cs));
          sorted = sort_key (\<lambda>s. - score s) cs
      in \<lparr> overallScore = overall,
           overallLevel = scoreToLevel overall,
           categoryScores = cs,
           strengths = map (\<lambda>s. categoryToString (category s)) (take 2 sorted),
           weaknesses = map (\<lambda>s. categoryToString (category s)) (drop (length sorted - 2) sorted) \<rparr>)"

subsection \<open>\<open>generateRecommendations\<close>\<close>

definition resource :: "string \<Rightarrow> ResourceType \<Rightarrow> string \<Rightarrow> LearningResource" where
  "resource t k u = \<lparr> title = t, rtype = k, url = u \<rparr>"

text \<open>
  The body of the \<open>forEach\<close> callback: what one element of the sorted array, at
  position \<open>index\<close>, pushes onto \<open>recommendations\<close> (nothing or one entry). The
  \<open>description\<close> of a learning resource is left out.
\<close>

definition recommend :: "BehavioralMetrics \<Rightarrow> SkillScore \<Rightarrow> nat \<Rightarrow> Recommendation list" where
  "recommend metrics scoreData index =
     (if score scoreData \<ge> 70 then []
      else
        let prio = (if index = 0 then High else if index = 1 then Medium else Low)
        in (case category scoreData of
              CODING_PROFICIENCY \<Rightarrow>
                (if typingToTotalRatio metrics < 0.5
                 then [\<lparr> rec_category = category scoreData, priority = prio,
                         issue = ''High paste-to-typing ratio indicates over-reliance on external code'',
                         suggestion = ''Practice writing code from scratch. Start with small algorithms and gradually increase complexity.'',
                         learningResources =
                           [resource ''LeetCode - Easy Problems'' Practice
                              ''https://leetcode.com/problemset/all/?difficulty=EASY'',
                            resource ''The Odin Project - Foundations'' Course
                              ''https://www.theodinproject.com/paths/foundations/courses/foundations''] \<rparr>]
                 else [])
            | PROBLEM_SOLVING \<Rightarrow>
                [\<lparr> rec_category = category scoreData, priority = prio,
                    issue = ''High edit frequency suggests trial-and-error approach'',
                    suggestion = ''Plan before coding. Break problems into smaller steps. Practice pseudocode and flowcharts.'',
                    learningResources =
                      [resource ''Problem-Solving Techniques'' Article
                         ''https://www.freecodecamp.org/news/how-to-think-like-a-programmer-lessons-in-problem-solving-d1d8bf1de7d2/'',
                       resource ''Algorithmic Thinking'' Course
                         ''https://www.coursera.org/learn/algorithmic-thinking-1''] \<rparr>]
            | FOCUS_CONSISTENCY \<Rightarrow>
                [\<lparr> rec_category = category scoreData, priority = prio,
                    issue = ''High idle time indicates focus or workflow issues'',
                    suggestion = ''Use Pomodoro technique (25-min focus sessions). Minimize context switching. Set clear goals before starting.'',
                    learningResources =
                      [resource ''Deep Work Principles'' Article ''https://blog.doist.com/deep-work/'',
                       resource ''Pomodoro Timer'' Practice ''https://pomofocus.io/''] \<rparr>]
            | CODE_QUALITY \<Rightarrow>
                [\<lparr> rec_category = category scoreData, priority = prio,
                    issue = ''High delete-to-add ratio suggests frequent corrections'',
                    suggestion = ''Review code standards for your language. Use linters (ESLint, Pylint). Write tests first (TDD).'',
                    learningResources =
                      [resource ''Clean Code Principles'' Article
                         ''https://github.com/ryanmcdermott/clean-code-javascript'',
                       resource ''Test-Driven Development'' Video
                         ''https://www.youtube.com/watch?v=Jv2uxzhPFl4''] \<rparr>]
            | LANGUAGE_VERSATILITY \<Rightarrow>
                [\<lparr> rec_category = category scoreData, priority = prio,
                    issue = ''Limited language exposure may restrict career opportunities'',
                    suggestion = ''Learn a second language in a different paradigm (e.g., if you know JavaScript, try Python or Go).'',
                    learningResources =
                      [resource ''Python for Beginners'' Course
                         ''https://www.python.org/about/gettingstarted/'',
                       resource ''Go by Example'' Documentation ''https://gobyexample.com/''] \<rparr>]))"

text \<open>\<open>sorted.forEach((scoreData, index) => ...)\<close> from position \<open>index\<close> on.\<close>

fun forEachRecommend :: "BehavioralMetrics \<Rightarrow> nat \<Rightarrow> SkillScore list \<Rightarrow> Recommendation list" where
  "forEachRecommend metrics index [] = []"
| "forEachRecommend metrics index (s # ss) =
     recommend metrics s index @ forEachRecommend metrics (Suc index) ss"

definition generateRecommendations :: "SkillScore list \<Rightarrow> BehavioralMetrics \<Rightarrow> Recommendation list" where
  "generateRecommendations cs metrics = forEachRecommend metrics 0 (sort_key score cs)"

text \<open>\<open>analyzeSkill\<close>: the profile and the recommendations of one analysis.\<close>

definition analyzeSkill :: "FileMetrics list \<Rightarrow> int \<Rightarrow> int \<Rightarrow> SkillProfile \<times> Recommendation list" where
  "analyzeSkill files totalActiveTime totalIdleTime =
     (let metrics = extractBehavioralMetrics files totalActiveTime totalIdleTime;
          cs = calculateCategoryScores metrics
      in (buildSkillProfile cs, generateRecommendations cs metrics))"

subsection \<open>Per-file counters as \<open>ensureFileMetrics\<close> creates them\<close>

definition newFileMetrics :: "string \<Rightarrow> string \<Rightarrow> int \<Rightarrow> FileMetrics" where
  "newFileMetrics file language now =
     \<lparr> fm_file = file, fm_language = language, fm_firstSeen = now, fm_lastActive = now,
       fm_keystrokeCount = 0, fm_pasteCount = 0, fm_typingToTotalRatio = 0,
       fm_linesAdded = 0, fm_linesDeleted = 0, fm_editCount = 0, fm_averageEditSize = 0,
       fm_activeTimeMs = 0, fm_idleTimeMs = 0, fm_totalTimeMs = 0,
       fm_switchToCount = 0, fm_switchFromCount = 0, fm_openCount = 0,
       fm_codeAnalysisCount = 0, fm_lastAnalysisTimestamp = None \<rparr>"

subsection \<open>Notions used to state the properties\<close>

text \<open>The number of files whose language is \<open>l\<close>.\<close>

definition filesWithLanguage :: "FileMetrics list \<Rightarrow> string \<Rightarrow> int" where
  "filesWithLanguage files l = int (length (filter (\<lambda>f. fm_language f = l) files))"

text \<open>Two files in two languages: the languages are tied with one file each.\<close>

definition tiedFiles :: "FileMetrics list" where
  "tiedFiles = [newFileMetrics ''a.ts'' ''TypeScript'' 0, newFileMetrics ''b.py'' ''Python'' 0]"

text \<open>
  The metrics of a session with one TypeScript file: 3 typed characters, 2 pastes, 4 edits,
  one minute active and one minute idle.
\<close>

definition sampleMetrics :: BehavioralMetrics where
  "sampleMetrics =
     \<lparr> typingToTotalRatio = 3 / 5, averageTypingSpeed = 3, keystrokeCount = 3, pasteCount = 2,
       editCount = 4, linesAdded = 10, linesDeleted = 5, backspaceRatio = 1 / 2,
       activeTimeMs = 60000, idleTimeMs = 60000, focusRatio = 1 / 2,
       languages = [''TypeScript''], primaryLanguage = ''TypeScript'',
       languageDistribution = [(''TypeScript'', 100)], fileCount = 1,
       averageFileActiveTime = 60000, fileSwitchCount = 0 \<rparr>"

text \<open>
  The same session with ratio fields that are not ratios: a typing ratio of 2 and a focus
  ratio of -1.
\<close>

definition unboundedRatioMetrics :: BehavioralMetrics where
  "unboundedRatioMetrics = sampleMetrics \<lparr> typingToTotalRatio := 2, focusRatio := - 1 \<rparr>"

text \<open>
  A session whose second-lowest score is the coding proficiency, with a typing ratio of
  0.55: no edit, no deleted line, a focus ratio of 0.6.
\<close>

definition skippedRankMetrics :: BehavioralMetrics where
  "skippedRankMetrics =
     sampleMetrics \<lparr> typingToTotalRatio := 11 / 20, editCount := 0, backspaceRatio := 0,
       focusRatio := 3 / 5 \<rparr>"

text \<open>The priority the callback gives to the element at position \<open>index\<close>.\<close>

definition priorityAt :: "nat \<Rightarrow> Priority" where
  "priorityAt index = (if index = 0 then High else if index = 1 then Medium else Low)"

text \<open>
  Five files in five languages; only the first was edited: 3 typed characters and 2 pastes
  in 3 edits, with no line added or deleted.
\<close>

definition fiveLanguageFiles :: "FileMetrics list" where
  "fiveLanguageFiles =
     [(newFileMetrics ''a.ts'' ''TypeScript'' 0)
        \<lparr> fm_keystrokeCount := 3, fm_pasteCount := 2, fm_editCount := 3 \<rparr>,
      newFileMetrics ''b.py'' ''Python'' 0,
      newFileMetrics ''c.go'' ''Go'' 0,
      newFileMetrics ''d.rs'' ''Rust'' 0,
      newFileMetrics ''e.rb'' ''Ruby'' 0]"

section \<open>Strings and regular expressions of the host language\<close>

text \<open>
  A JavaScript string is modelled as a \<open>string\<close>, one \<open>char\<close> per UTF-16 code unit, so
  the model covers the texts whose code units are below 256. \<open>isWhiteSpace\<close> is the
  class \<open>\s\<close> restricted to that range (it is also what \<open>trim\<close> strips),
  \<open>isWordChar\<close> the class \<open>\w\<close>, and \<open>isLineTerminator\<close> what \<open>.\<close> excludes and what
  \<open>^\<close> and \<open>$\<close> look for under the \<open>m\<close> flag.
\<close>

definition isWhiteSpace :: "char \<Rightarrow> bool" where
  "isWhiteSpace c =
     (c \<in> set [CHR 0x09, CHR 0x0A, CHR 0x0B, CHR 0x0C, CHR 0x0D, CHR 0x20, CHR 0xA0])"

definition isLineTerminator :: "char \<Rightarrow> bool" where
  "isLineTerminator c = (c = CHR 0x0A \<or> c = CHR 0x0D)"

definition inRange :: "char \<Rightarrow> char \<Rightarrow> char \<Rightarrow> bool" where
  "inRange lo hi c = ((of_char lo :: nat) \<le> of_char c \<and> (of_char c :: nat) \<le> of_char hi)"

definition isWordChar :: "char \<Rightarrow> bool" where
  "isWordChar c =
     (inRange CHR ''a'' CHR ''z'' c \<or> inRange CHR ''A'' CHR ''Z'' c
      \<or> inRange CHR ''0'' CHR ''9'' c \<or> c = CHR ''_'')"

text \<open>\<open>String.prototype.trim\<close>.\<close>

definition trim :: "string \<Rightarrow> string" where
  "trim s = rev (dropWhile isWhiteSpace (rev (dropWhile isWhiteSpace s)))"

text \<open>
  \<open>String.prototype.toLowerCase\<close> on code units below 256: the letters A to Z and
  the Latin-1 capitals (0xC0 to 0xDE without the multiplication sign 0xD7) move up by 32.
\<close>

definition toLowerChar :: "char \<Rightarrow> char" where
  "toLowerChar c =
     (if inRange CHR ''A'' CHR ''Z'' c \<or> (inRange CHR 0xC0 CHR 0xDE c \<and> c \<noteq> CHR 0xD7)
      then char_of (of_char c + (32::nat)) else c)"

definition toLowerCase :: "string \<Rightarrow> string" where
  "toLowerCase s = map toLowerChar s"

text \<open>\<open>s.includes(sub)\<close>: \<open>sub\<close> occurs in \<open>s\<close> as a contiguous substring.\<close>

fun str_includes :: "string \<Rightarrow> string \<Rightarrow> bool" where
  "str_includes [] sub = (sub = [])"
| "str_includes (c # cs) sub = (take (length sub) (c # cs) = sub \<or> str_includes cs sub)"

text \<open>\<open>s.split(d)\<close> for a one-character separator; the result is never empty.\<close>

fun split :: "char \<Rightarrow> string \<Rightarrow> string list" where
  "split d [] = [[]]"
| "split d (c # cs) =
     (if c = d then [] # split d cs
      else (case split d cs of [] \<Rightarrow> [[c]] | l # ls \<Rightarrow> (c # l) # ls))"

text \<open>\<open>lines.join('\n')\<close>.\<close>

fun join :: "char \<Rightarrow> string list \<Rightarrow> string" where
  "join d [] = []"
| "join d [l] = l"
| "join d (l # ls) = l @ d # join d ls"

subsection \<open>Regular expressions\<close>

text \<open>
  The abstract syntax of the regular expressions the sources use: literals, the dot,
  character classes (\<open>OneOf\<close>) and negated classes (\<open>NoneOf\<close>), concatenation,
  alternation, the greedy quantifiers \<open>?\<close>, \<open>*\<close> and \<open>+\<close>, the assertions \<open>^\<close>, \<open>$\<close>
  and \<open>\b\<close>. Groups only delimit a subexpression, so they are the structure of the tree.
  No source pattern has a back-reference, a look-around or a lazy quantifier.
\<close>

datatype citem = Single char | Between char char | WhiteSpaceEsc | WordEsc

fun inItem :: "citem \<Rightarrow> char \<Rightarrow> bool" where
  "inItem (Single x) c = (c = x)"
| "inItem (Between lo hi) c = inRange lo hi c"
| "inItem WhiteSpaceEsc c = isWhiteSpace c"
| "inItem WordEsc c = isWordChar c"

datatype regex =
    Eps
  | Chr char
  | AnyChar
  | OneOf "citem list"
  | NoneOf "citem list"
  | Seq regex regex
  | Alt regex regex
  | Opt regex
  | Star regex
  | Bol
  | Eol
  | WordB

text \<open>\<open>a+\<close> is one \<open>a\<close> followed by \<open>a*\<close>.\<close>

definition Plus :: "regex \<Rightarrow> regex" where
  "Plus a = Seq a (Star a)"

text \<open>The sequence of the expressions of a list, and the literal string.\<close>

fun seqs :: "regex list \<Rightarrow> regex" where
  "seqs [] = Eps"
| "seqs [r] = r"
| "seqs (r # rs) = Seq r (seqs rs)"

definition lit :: "string \<Rightarrow> regex" where
  "lit s = seqs (map Chr s)"

fun alts :: "regex list \<Rightarrow> regex" where
  "alts [] = Eps"
| "alts [r] = r"
| "alts (r # rs) = Alt r (alts rs)"

abbreviation ws :: regex where "ws \<equiv> OneOf [WhiteSpaceEsc]"
abbreviation wd :: regex where "wd \<equiv> OneOf [WordEsc]"

text \<open>
  A position in the subject string: the code unit before it (\<open>None\<close> at index 0) and the
  rest of the string from it.
\<close>

type_synonym pos = "char option \<times> string"

definition step1 :: "(char \<Rightarrow> bool) \<Rightarrow> pos \<Rightarrow> pos list" where
  "step1 P st = (case snd st of [] \<Rightarrow> [] | x # xs \<Rightarrow> if P x then [(Some x, xs)] else [])"

definition atWordBoundary :: "pos \<Rightarrow> bool" where
  "atWordBoundary st =
     ((case fst st of None \<Rightarrow> False | Some c \<Rightarrow> isWordChar c)
      \<noteq> (case snd st of [] \<Rightarrow> False | c # _ \<Rightarrow> isWordChar c))"

text \<open>
  The backtracking matcher. \<open>rmatch ml r st\<close> lists the positions at which a match of
  \<open>r\<close> that starts at \<open>st\<close> can end, in the order in which the backtracking search of
  the language tries them: the left alternative before the right one, one more iteration
  of a greedy quantifier before stopping. An iteration of \<open>?\<close> or \<open>*\<close> that consumes
  nothing is not considered, as the language prescribes. \<open>ml\<close> is the \<open>m\<close> flag.
\<close>

function rmatch :: "bool \<Rightarrow> regex \<Rightarrow> pos \<Rightarrow> pos list" where
  "rmatch ml Eps st = [st]"
| "rmatch ml (Chr c) st = step1 (\<lambda>x. x = c) st"
| "rmatch ml AnyChar st = step1 (\<lambda>x. \<not> isLineTerminator x) st"
| "rmatch ml (OneOf items) st = step1 (\<lambda>x. list_ex (\<lambda>i. inItem i x) items) st"
| "rmatch ml (NoneOf items) st = step1 (\<lambda>x. \<not> list_ex (\<lambda>i. inItem i x) items) st"
| "rmatch ml (Seq a b) st = concat (map (rmatch ml b) (rmatch ml a st))"
| "rmatch ml (Alt a b) st = rmatch ml a st @ rmatch ml b st"
| "rmatch ml (Opt a) st =
     filter (\<lambda>e. length (snd e) < length (snd st)) (rmatch ml a st) @ [st]"
| "rmatch ml (Star a) st =
     concat (map (rmatch ml (Star a))
               (filter (\<lambda>e. length (snd e) < length (snd st)) (rmatch ml a st))) @ [st]"
| "rmatch ml Bol st =
     (case fst st of None \<Rightarrow> [st] | Some c \<Rightarrow> if ml \<and> isLineTerminator c then [st] else [])"
| "rmatch ml Eol st =
     (case snd st of [] \<Rightarrow> [st] | c # _ \<Rightarrow> if ml \<and> isLineTerminator c then [st] else [])"
| "rmatch ml WordB st = (if atWordBoundary st then [st] else [])"
  by pat_completeness auto
termination
  by (relation "measures [\<lambda>(ml, r, st). size r, \<lambda>(ml, r, st). length (snd st)]") auto

text \<open>
  The leftmost match at or after a position: the start of the match and its end, the end
  being the first one the backtracking search finds.
\<close>

fun search :: "bool \<Rightarrow> regex \<Rightarrow> char option \<Rightarrow> string \<Rightarrow> (pos \<times> pos) option" where
  "search ml r p [] =
     (case rmatch ml r (p, []) of [] \<Rightarrow> None | e # _ \<Rightarrow> Some ((p, []), e))"
| "search ml r p (c # cs) =
     (case rmatch ml r (p, c # cs) of
        [] \<Rightarrow> search ml r (Some c) cs
      | e # _ \<Rightarrow> Some ((p, c # cs), e))"

text \<open>The text between the start and the end of a match.\<close>

definition matched :: "pos \<Rightarrow> pos \<Rightarrow> string" where
  "matched b e = take (length (snd b) - length (snd e)) (snd b)"

text \<open>\<open>regex.test(s)\<close> for a regular expression without the \<open>g\<close> flag.\<close>

definition test :: "regex \<Rightarrow> string \<Rightarrow> bool" where
  "test r s = (search False r None s \<noteq> None)"

text \<open>
  \<open>s.match(regex)\<close> without the \<open>g\<close> flag: the text of the leftmost match, if any.
\<close>

definition matchFirst :: "regex \<Rightarrow> string \<Rightarrow> string option" where
  "matchFirst r s = map_option (\<lambda>(b, e). matched b e) (search False r None s)"

text \<open>\<open>s.replace(regex, '')\<close> without the \<open>g\<close> flag: the leftmost match is removed.\<close>

definition removeFirst :: "regex \<Rightarrow> string \<Rightarrow> string" where
  "removeFirst r s =
     (case search False r None s of
        None \<Rightarrow> s
      | Some (b, e) \<Rightarrow> take (length s - length (snd b)) s @ snd e)"

text \<open>
  \<open>s.match(regex)\<close> with the \<open>g\<close> flag: the texts of all matches, found from left to
  right, each search starting where the previous match ended, and one code unit further
  after an empty match. The function walks the string once: \<open>skip\<close> counts the code units
  still covered by the last match, at which no search starts. The loop
  \<open>while ((m = regex.exec(s)) !== null)\<close> finds the same matches when no match is empty.
\<close>

fun matchAll :: "bool \<Rightarrow> regex \<Rightarrow> nat \<Rightarrow> char option \<Rightarrow> string \<Rightarrow> string list" where
  "matchAll ml r skip p [] =
     (if skip > 0 then []
      else (case rmatch ml r (p, []) of [] \<Rightarrow> [] | e # _ \<Rightarrow> [[]]))"
| "matchAll ml r skip p (c # cs) =
     (if skip > 0 then matchAll ml r (skip - 1) (Some c) cs
      else (case rmatch ml r (p, c # cs) of
              [] \<Rightarrow> matchAll ml r 0 (Some c) cs
            | e # _ \<Rightarrow>
                matched (p, c # cs) e
                  # matchAll ml r (length (matched (p, c # cs) e) - 1) (Some c) cs))"

text \<open>The number of matches: \<open>(s.match(regex) || []).length\<close>.\<close>

definition countMatches :: "bool \<Rightarrow> regex \<Rightarrow> string \<Rightarrow> int" where
  "countMatches ml r s = int (length (matchAll ml r 0 None s))"

section \<open>Language detection: \<open>LanguageDetector\<close>\<close>

text \<open>
  \<open>EXTENSION_MAP\<close>, in the order of the source. Every key starts with a dot, so no
  property inherited by the object is ever looked up.
\<close>

definition EXTENSION_MAP :: "(string \<times> string) list" where
  "EXTENSION_MAP =
     [(''.js'', ''JavaScript''),
      (''.jsx'', ''JavaScript React''),
      (''.ts'', ''TypeScript''),
      (''.tsx'', ''TypeScript React''),
      (''.mjs'', ''JavaScript''),
      (''.cjs'', ''JavaScript''),
      (''.py'', ''Python''),
      (''.pyw'', ''Python''),
      (''.pyx'', ''Python''),
      (''.java'', ''Java''),
      (''.class'', ''Java Bytecode''),
      (''.jar'', ''Java Archive''),
      (''.c'', ''C''),
      (''.cpp'', ''C++''),
      (''.cxx'', ''C++''),
      (''.cc'', ''C++''),
      (''.h'', ''C Header''),
      (''.hpp'', ''C++ Header''),
      (''.hxx'', ''C++ Header''),
      (''.cs'', ''C#''),
      (''.csx'', ''C# Script''),
      (''.go'', ''Go''),
      (''.rs'', ''Rust''),
      (''.rb'', ''Ruby''),
      (''.erb'', ''Ruby ERB''),
      (''.php'', ''PHP''),
      (''.phtml'', ''PHP''),
      (''.html'', ''HTML''),
      (''.htm'', ''HTML''),
      (''.css'', ''CSS''),
      (''.scss'', ''SCSS''),
      (''.sass'', ''Sass''),
      (''.less'', ''Less''),
      (''.sh'', ''Shell''),
      (''.bash'', ''Bash''),
      (''.zsh'', ''Zsh''),
      (''.fish'', ''Fish''),
      (''.swift'', ''Swift''),
      (''.kt'', ''Kotlin''),
      (''.kts'', ''Kotlin Script''),
      (''.scala'', ''Scala''),
      (''.hs'', ''Haskell''),
      (''.lua'', ''Lua''),
      (''.r'', ''R''),
      (''.R'', ''R''),
      (''.dart'', ''Dart''),
      (''.sql'', ''SQL''),
      (''.json'', ''JSON''),
      (''.xml'', ''XML''),
      (''.yaml'', ''YAML''),
      (''.yml'', ''YAML''),
      (''.toml'', ''TOML''),
      (''.ini'', ''INI''),
      (''.md'', ''Markdown''),
      (''.markdown'', ''Markdown''),
      (''.txt'', ''Plain Text''),
      (''.log'', ''Log File''),
      (''.vue'', ''Vue''),
      (''.svelte'', ''Svelte'')]"

text \<open>
  The pattern \<open>/\.([^.]+)$/\<close>. Its group is the match without the leading dot.
\<close>

definition extensionPattern :: regex where
  "extensionPattern = seqs [Chr CHR ''.'', Plus (NoneOf [Single CHR ''.'']), Eol]"

definition detectLanguage :: "string \<Rightarrow> string" where
  "detectLanguage filePath =
     (case matchFirst extensionPattern filePath of
        None \<Rightarrow> ''Unknown''
      | Some m \<Rightarrow>
          (case map_of EXTENSION_MAP (CHR ''.'' # toLowerCase (tl m)) of
             None \<Rightarrow> ''Unknown''
           | Some l \<Rightarrow> l))"

definition getExtension :: "string \<Rightarrow> string" where
  "getExtension filePath =
     (case matchFirst extensionPattern filePath of
        None \<Rightarrow> []
      | Some m \<Rightarrow> toLowerCase (tl m))"

definition isCodeFile :: "string \<Rightarrow> bool" where
  "isCodeFile filePath =
     (detectLanguage filePath \<notin> set [''Unknown'', ''JSON'', ''XML'', ''YAML'', ''TOML'', ''INI'',
        ''Plain Text'', ''Log File'', ''Markdown''])"

section \<open>Feature extraction: \<open>CodeFeatureExtractor\<close>\<close>

subsection \<open>Numbers that may fail to be finite\<close>

text \<open>
  A JavaScript number is a finite value, NaN or an infinity. Counts and lengths are always
  finite and are modelled as \<open>int\<close>; the result of a division or of \<open>Math.min\<close> over a
  list that may be empty is a \<open>number\<close> (a \<open>js\<close> value), so that its being finite is a statement about the
  code and not a choice of type. Finite doubles are idealised as reals.
\<close>

datatype 'a js = Fin 'a | NaN | PosInf | NegInf

type_synonym number = "real js"

definition isFinite :: "'a js \<Rightarrow> bool" where
  "isFinite x = (case x of Fin _ \<Rightarrow> True | _ \<Rightarrow> False)"

text \<open>\<open>a / b\<close> for finite \<open>a\<close> and \<open>b\<close>.\<close>

definition js_div :: "real \<Rightarrow> real \<Rightarrow> number" where
  "js_div a b =
     (if b = 0 then (if a = 0 then NaN else if a > 0 then PosInf else NegInf)
      else Fin (a / b))"

text \<open>\<open>Math.round(x * 100) / 100\<close>; NaN and the infinities pass through.\<close>

definition round2 :: "number \<Rightarrow> number" where
  "round2 x =
     (case x of
        Fin r \<Rightarrow> Fin (real_of_int (Math_round (r * 100)) / 100)
      | NaN \<Rightarrow> NaN | PosInf \<Rightarrow> PosInf | NegInf \<Rightarrow> NegInf)"

subsection \<open>Exceptions, and calls that spread an array\<close>

text \<open>
  The exceptions the extractor can raise: the SyntaxError of a \<open>RegExp\<close> constructor,
  and the RangeError of a call with too many arguments.
\<close>

datatype error = SyntaxError | RangeError

text \<open>
  A call \<open>f(...xs)\<close> passes one argument per element of \<open>xs\<close>. The engine accepts only
  so many arguments in one call and raises a RangeError for more (the arguments go on the
  call stack). The bound depends on the engine and on the size of its stack; it is the
  parameter \<open>maxArguments\<close> of the functions below.

  \<open>Math.min(...xs)\<close>: \<open>Infinity\<close> for no argument.
\<close>

definition Math_min_spread :: "nat \<Rightarrow> int list \<Rightarrow> error + int js" where
  "Math_min_spread maxArguments xs =
     (if length xs > maxArguments then Inl RangeError
      else Inr (case xs of [] \<Rightarrow> PosInf | x # ys \<Rightarrow> Fin (foldl min x ys)))"

text \<open>\<open>Math.max(...xs, 0)\<close>: one argument per element of \<open>xs\<close>, and the 0.\<close>

definition Math_max_spread0 :: "nat \<Rightarrow> int list \<Rightarrow> error + int" where
  "Math_max_spread0 maxArguments xs =
     (if length xs + 1 > maxArguments then Inl RangeError else Inr (foldl max 0 xs))"

subsection \<open>Pattern tables\<close>

record CommentPatterns =
  singleLine :: "regex list"
  blockStart :: regex
  blockEnd :: regex
  docstring :: "regex option"

text \<open>\<open>/^\s*X/\<close> for a literal \<open>X\<close>.\<close>

definition lineStart :: "string \<Rightarrow> regex" where
  "lineStart s = seqs [Bol, Star ws, lit s]"

definition COMMENT_PATTERNS :: "(string \<times> CommentPatterns) list" where
  "COMMENT_PATTERNS =
     [(''default'', \<lparr> singleLine = [lineStart ''//''], blockStart = lit ''/*'', blockEnd = lit ''*/'',
                      docstring = None \<rparr>),
      (''python'', \<lparr> singleLine = [lineStart ''#''],
                     blockStart = lit [CHR 0x27, CHR 0x27, CHR 0x27],
                     blockEnd = lit [CHR 0x27, CHR 0x27, CHR 0x27],
                     docstring = Some (lineStart [CHR 0x22, CHR 0x22, CHR 0x22]) \<rparr>),
      (''ruby'', \<lparr> singleLine = [lineStart ''#''], blockStart = lit ''=begin'', blockEnd = lit ''=end'',
                   docstring = None \<rparr>),
      (''html'', \<lparr> singleLine = [], blockStart = lit ''<!--'', blockEnd = lit ''-->'',
                   docstring = None \<rparr>),
      (''css'', \<lparr> singleLine = [], blockStart = lit ''/*'', blockEnd = lit ''*/'', docstring = None \<rparr>),
      (''shell'', \<lparr> singleLine = [lineStart ''#''], blockStart = lit [CHR '':'', CHR 0x20, CHR 0x27],
                    blockEnd = lit [CHR 0x27], docstring = None \<rparr>)]"

text \<open>
  \<open>TABLE[langKey] || TABLE.default\<close>. The key is always a result of
  \<open>getLanguageKey\<close>, so it never names a property the table object inherits.
\<close>

definition lookupOrDefault :: "(string \<times> 'a) list \<Rightarrow> string \<Rightarrow> 'a" where
  "lookupOrDefault table langKey =
     (case map_of table langKey of
        Some v \<Rightarrow> v
      | None \<Rightarrow> (case map_of table ''default'' of Some v \<Rightarrow> v | None \<Rightarrow> snd (hd table)))"

definition FUNCTION_PATTERNS :: "(string \<times> regex list) list" where
  "FUNCTION_PATTERNS =
     [(''default'',
        [seqs [lit ''function'', Plus ws, Plus wd],
         seqs [Plus wd, Star ws, Chr CHR ''='', Star ws, lit ''function''],
         seqs [Plus wd, Star ws, Chr CHR ''='', Star ws, Chr CHR ''('',
               Star (NoneOf [Single CHR '')'']), Chr CHR '')'', Star ws, lit ''=>''],
         seqs [Plus wd, Star ws, Chr CHR '':'', Star ws, lit ''function'']]),
      (''python'',
        [seqs [Bol, Star ws, lit ''def'', Plus ws, Plus wd],
         seqs [Bol, Star ws, lit ''async'', Plus ws, lit ''def'', Plus ws, Plus wd]]),
      (''java'',
        [seqs [WordB, Opt (alts [lit ''public'', lit ''private'', lit ''protected'', lit ''static'']),
               Star ws, alts [lit ''void'', lit ''int'', lit ''String'', lit ''boolean'', Plus wd],
               Plus ws, Plus wd, Star ws, Chr CHR ''('']]),
      (''csharp'',
        [seqs [WordB,
               Opt (alts [lit ''public'', lit ''private'', lit ''protected'', lit ''internal'',
                          lit ''static'']),
               Star ws, alts [lit ''void'', lit ''int'', lit ''string'', lit ''bool'', Plus wd],
               Plus ws, Plus wd, Star ws, Chr CHR ''('']]),
      (''go'',
        [seqs [Bol, Star ws, lit ''func'', Plus ws,
               Opt (seqs [Chr CHR ''('', Plus (NoneOf [Single CHR '')'']), Chr CHR '')'', Star ws]),
               Plus wd]]),
      (''rust'',
        [seqs [Bol, Star ws, Opt (seqs [lit ''pub'', Plus ws]), lit ''fn'', Plus ws, Plus wd]]),
      (''ruby'',
        [seqs [Bol, Star ws, lit ''def'', Plus ws, Plus wd]])]"

definition CLASS_PATTERNS :: "(string \<times> regex list) list" where
  "CLASS_PATTERNS =
     [(''default'', [seqs [WordB, lit ''class'', Plus ws, Plus wd]]),
      (''python'', [seqs [Bol, Star ws, lit ''class'', Plus ws, Plus wd]]),
      (''java'',
        [seqs [WordB, Opt (alts [lit ''public'', lit ''private'', lit ''protected'']), Star ws,
               lit ''class'', Plus ws, Plus wd],
         seqs [WordB, lit ''interface'', Plus ws, Plus wd]]),
      (''go'', [seqs [Bol, Star ws, lit ''type'', Plus ws, Plus wd, Plus ws, lit ''struct'']]),
      (''rust'',
        [seqs [Bol, Star ws, Opt (seqs [lit ''pub'', Plus ws]), lit ''struct'', Plus ws, Plus wd],
         seqs [Bol, Star ws, Opt (seqs [lit ''pub'', Plus ws]), lit ''enum'', Plus ws, Plus wd]])]"

definition IMPORT_PATTERNS :: "(string \<times> regex list) list" where
  "IMPORT_PATTERNS =
     [(''default'',
        [seqs [Bol, Star ws, lit ''import'', Plus ws],
         seqs [Bol, Star ws, lit ''from'', Plus ws, Plus AnyChar, Plus ws, lit ''import''],
         seqs [WordB, lit ''require'', Star ws, Chr CHR ''('']]),
      (''python'',
        [seqs [Bol, Star ws, lit ''import'', Plus ws],
         seqs [Bol, Star ws, lit ''from'', Plus ws, Plus AnyChar, Plus ws, lit ''import'']]),
      (''java'',
        [seqs [Bol, Star ws, lit ''import'', Plus ws],
         seqs [Bol, Star ws, lit ''package'', Plus ws]]),
      (''go'', [seqs [Bol, Star ws, lit ''import'', Plus ws]]),
      (''rust'',
        [seqs [Bol, Star ws, lit ''use'', Plus ws],
         seqs [Bol, Star ws, lit ''extern'', Plus ws, lit ''crate'']]),
      (''csharp'', [seqs [Bol, Star ws, lit ''using'', Plus ws]])]"

definition CONTROL_FLOW_KEYWORDS :: "string list" where
  "CONTROL_FLOW_KEYWORDS =
     [''if'', ''else'', ''elif'', ''for'', ''while'', ''switch'', ''case'',
      ''try'', ''catch'', ''except'', ''finally'', ''with'', ''match'',
      ''&&'', ''||'', ''?'', ''??'']"

definition EXTRACTION_VERSION :: string where
  "EXTRACTION_VERSION = ''1.0.0''"

subsection \<open>\<open>getLanguageKey\<close>\<close>

definition getLanguageKey :: "string \<Rightarrow> string" where
  "getLanguageKey lang =
     (let langLower = toLowerCase lang in
      if str_includes langLower ''python'' then ''python''
      else if str_includes langLower ''java'' \<and> \<not> str_includes langLower ''javascript'' then ''java''
      else if str_includes langLower ''c#'' then ''csharp''
      else if str_includes langLower ''go'' then ''go''
      else if str_includes langLower ''rust'' then ''rust''
      else if str_includes langLower ''ruby'' then ''ruby''
      else if str_includes langLower ''html'' then ''html''
      else if str_includes langLower ''css'' \<or> str_includes langLower ''scss''
              \<or> str_includes langLower ''sass'' then ''css''
      else if str_includes langLower ''shell'' \<or> str_includes langLower ''bash'' then ''shell''
      else ''default'')"

subsection \<open>The parts of a feature record\<close>

text \<open>
  Each helper returns a \<open>Pick<CodeFeatures, ...>\<close> object and the extractor spreads them
  into one flat object. No two parts share a field name, so the spread loses nothing, and
  \<open>CodeFeatures\<close> is modelled as the record of its parts and of the metadata fields.
\<close>

record BasicMetrics =
  totalLines :: int
  codeLines :: int
  commentLines :: int
  blankLines :: int

datatype IndentationStyle = Spaces | Tabs | Mixed

record StructuralMetrics =
  averageLineLength :: number
  maxLineLength :: int
  indentationConsistency :: number
  indentationStyle :: IndentationStyle
  indentationSize :: int

record CommentMetrics =
  commentDensity :: number
  blockCommentCount :: int
  inlineCommentCount :: int
  docstringCount :: int

record CodeStructure =
  functionCount :: int
  classCount :: int
  importCount :: int

record ComplexityMetrics =
  cyclomaticComplexity :: int
  nestingDepth :: int

record NamingMetrics =
  averageVariableNameLength :: number
  camelCaseRatio :: number
  snake_caseRatio :: number
  singleCharVarCount :: int

record QualityMetrics =
  duplicateLineRatio :: number
  longLineRatio :: number
  emptyBlockCount :: int

record TemporalMetrics =
  typingSpeed :: number
  editFrequency :: number
  pasteRatio :: number

record CodeFeatures =
  basicMetrics :: BasicMetrics
  structuralMetrics :: StructuralMetrics
  commentMetrics :: CommentMetrics
  codeStructure :: CodeStructure
  complexityMetrics :: ComplexityMetrics
  namingMetrics :: NamingMetrics
  qualityMetrics :: QualityMetrics
  temporalMetrics :: TemporalMetrics
  language :: string
  fileExtension :: string
  extractionTimestamp :: int
  extractionVersion :: string

subsection \<open>\<open>extractBasicMetrics\<close>\<close>

text \<open>
  The loop over the lines, with its three variables (\<open>blankLines\<close>, \<open>commentLines\<close>,
  \<open>inBlockComment\<close>) as the state. Each branch that ends in \<open>continue\<close> is a branch of
  the conditional; a line that reaches the end of the body changes nothing.
\<close>

fun basicLoop :: "CommentPatterns \<Rightarrow> int \<times> int \<times> bool \<Rightarrow> string list \<Rightarrow> int \<times> int \<times> bool" where
  "basicLoop ps st [] = st"
| "basicLoop ps (blank, comments, inBlock) (line # rest) =
     (let trimmed = trim line in
      if length trimmed = 0 then basicLoop ps (blank + 1, comments, inBlock) rest
      else if inBlock then
        basicLoop ps (blank, comments + 1, (if test (blockEnd ps) trimmed then False else inBlock)) rest
      else if test (blockStart ps) trimmed then
        basicLoop ps
          (blank, comments + 1,
           (if \<not> test (blockEnd ps) (removeFirst (blockStart ps) trimmed) then True else inBlock))
          rest
      else if list_ex (\<lambda>p. test p trimmed) (singleLine ps) then
        basicLoop ps (blank, comments + 1, inBlock) rest
      else basicLoop ps (blank, comments, inBlock) rest)"

definition extractBasicMetrics :: "string list \<Rightarrow> string \<Rightarrow> BasicMetrics" where
  "extractBasicMetrics lines langKey =
     (let ps = lookupOrDefault COMMENT_PATTERNS langKey;
          (blank, comments, inBlock) = basicLoop ps (0, 0, False) lines;
          total = int (length lines);
          code = total - blank - comments
      in \<lparr> totalLines = total, codeLines = max 0 code, commentLines = comments,
           blankLines = blank \<rparr>)"

subsection \<open>\<open>extractStructuralMetrics\<close>\<close>

text \<open>
  The loop over the indented lines, with \<open>tabCount\<close>, \<open>spaceCount\<close> and \<open>indentSizes\<close>
  as the state. \<open>/^(\s+)/\<close> has one group, which is the whole match.
\<close>

fun indentLoop :: "int \<times> int \<times> int list \<Rightarrow> string list \<Rightarrow> int \<times> int \<times> int list" where
  "indentLoop st [] = st"
| "indentLoop (tabs, spaces, sizes) (line # rest) =
     (case matchFirst (seqs [Bol, Plus ws]) line of
        None \<Rightarrow> indentLoop (tabs, spaces, sizes) rest
      | Some indent \<Rightarrow>
          if str_includes indent [CHR 0x09] then indentLoop (tabs + 1, spaces, sizes) rest
          else indentLoop (tabs, spaces + 1, sizes @ [int (length indent)]) rest)"

text \<open>
  The statements of the body in the order of the source, so that the exception of
  \<open>Math.max(...lineLengths, 0)\<close> comes before the one of
  \<open>Math.min(...indentSizes.filter(s => s > 0))\<close>; the latter call is only made when
  \<open>indentSizes\<close> is not empty.
\<close>

definition extractStructuralMetrics :: "nat \<Rightarrow> string list \<Rightarrow> error + StructuralMetrics" where
  "extractStructuralMetrics maxArguments lines =
     (let lineLengths = map (\<lambda>l. int (length l)) lines;
          avgLength =
            (if length lineLengths > 0
             then js_div (real_of_int (sum_list lineLengths)) (real (length lineLengths))
             else Fin 0)
      in case Math_max_spread0 maxArguments lineLengths of
           Inl e \<Rightarrow> Inl e
         | Inr maxLength \<Rightarrow>
             let indentedLines = filter (\<lambda>l. length l > 0 \<and> test (seqs [Bol, Plus ws]) l) lines;
                 (tabCount, spaceCount, indentSizes) = indentLoop (0, 0, []) indentedLines;
                 style = (if tabCount > 0 \<and> spaceCount > 0 then Mixed
                          else if tabCount > spaceCount then Tabs else Spaces)
             in case (if length indentSizes > 0
                      then (case Math_min_spread maxArguments (filter (\<lambda>s. s > 0) indentSizes) of
                              Inl e \<Rightarrow> Inl e
                            | Inr (Fin minIndent) \<Rightarrow> Inr (if minIndent > 0 then min minIndent 8 else 2)
                            | Inr PosInf \<Rightarrow> Inr 8
                            | Inr _ \<Rightarrow> Inr 2)
                      else Inr 2) of
                  Inl e \<Rightarrow> Inl e
                | Inr isize \<Rightarrow>
                    let consistentIndents =
                          int (length (filter (\<lambda>s. s mod isize = 0) indentSizes));
                        consistency =
                          (if length indentSizes > 0
                           then js_div (real_of_int consistentIndents) (real (length indentSizes))
                           else Fin 1)
                    in Inr \<lparr> averageLineLength = round2 avgLength, maxLineLength = maxLength,
                             indentationConsistency = round2 consistency,
                             indentationStyle = style, indentationSize = isize \<rparr>)"

subsection \<open>\<open>extractCommentMetrics\<close>\<close>

fun commentLoop ::
  "CommentPatterns \<Rightarrow> int \<times> int \<times> int \<times> bool \<Rightarrow> string list \<Rightarrow> int \<times> int \<times> int \<times> bool" where
  "commentLoop ps st [] = st"
| "commentLoop ps (blocks, inlines, docs, inBlock) (line # rest) =
     (let trimmed = trim line in
      if inBlock then
        commentLoop ps (blocks, inlines, docs, (if test (blockEnd ps) trimmed then False else inBlock)) rest
      else if (case docstring ps of None \<Rightarrow> False | Some d \<Rightarrow> test d trimmed) then
        commentLoop ps (blocks, inlines, docs + 1, inBlock) rest
      else if test (blockStart ps) trimmed then
        commentLoop ps
          (blocks + 1, inlines, docs,
           (if \<not> test (blockEnd ps) (removeFirst (blockStart ps) trimmed) then True else inBlock))
          rest
      else if list_ex (\<lambda>p. test p trimmed) (singleLine ps) then
        commentLoop ps (blocks, inlines + 1, docs, inBlock) rest
      else commentLoop ps (blocks, inlines, docs, inBlock) rest)"

definition extractCommentMetrics :: "string list \<Rightarrow> string \<Rightarrow> int \<Rightarrow> CommentMetrics" where
  "extractCommentMetrics lines langKey codeLineCount =
     (let ps = lookupOrDefault COMMENT_PATTERNS langKey;
          (blocks, inlines, docs, inBlock) = commentLoop ps (0, 0, 0, False) lines;
          totalComments = blocks + inlines + docs;
          density =
            (if codeLineCount > 0 then js_div (real_of_int totalComments) (real_of_int codeLineCount)
             else Fin 0)
      in \<lparr> commentDensity = round2 density, blockCommentCount = blocks,
           inlineCommentCount = inlines, docstringCount = docs \<rparr>)"

subsection \<open>\<open>extractCodeStructure\<close>\<close>

text \<open>The number of lines on which some pattern of the list matches.\<close>

definition countLines :: "regex list \<Rightarrow> string list \<Rightarrow> int" where
  "countLines ps lines = int (length (filter (\<lambda>line. list_ex (\<lambda>p. test p line) ps) lines))"

definition extractCodeStructure :: "string list \<Rightarrow> string \<Rightarrow> CodeStructure" where
  "extractCodeStructure lines langKey =
     \<lparr> functionCount = countLines (lookupOrDefault FUNCTION_PATTERNS langKey) lines,
       classCount = countLines (lookupOrDefault CLASS_PATTERNS langKey) lines,
       importCount = countLines (lookupOrDefault IMPORT_PATTERNS langKey) lines \<rparr>"

subsection \<open>\<open>extractComplexityMetrics\<close>\<close>

text \<open>
  \<open>new RegExp(pattern, 'g')\<close> for the patterns that are built from the keywords: literal
  characters, \<open>\b\<close>, a backslash before a character without a special meaning (which then
  stands for itself), \<open>|\<close> between alternatives and \<open>?\<close> after an atom. \<open>cur\<close> holds the
  terms of the current alternative and \<open>done\<close> the finished alternatives, both in reverse.
  The result is \<open>None\<close> where the constructor throws a SyntaxError (a quantifier with
  nothing to repeat, a backslash at the end) and for a pattern outside this fragment.
\<close>

fun parseRegExp :: "string \<Rightarrow> regex list \<Rightarrow> regex list \<Rightarrow> regex option" where
  "parseRegExp [] cur done = Some (alts (rev (seqs (rev cur) # done)))"
| "parseRegExp (c # cs) cur done =
     (if c = CHR 0x5C then
        (case cs of
           [] \<Rightarrow> None
         | e # rest \<Rightarrow>
             if e = CHR ''b'' then parseRegExp rest (WordB # cur) done
             else if e \<in> set ''dDwWsSBnrtvfcxukpP0123456789'' then None
             else parseRegExp rest (Chr e # cur) done)
      else if c = CHR ''|'' then parseRegExp cs [] (seqs (rev cur) # done)
      else if c = CHR ''?'' then
        (case cur of
           Chr x # ts \<Rightarrow> parseRegExp cs (Opt (Chr x) # ts) done
         | _ \<Rightarrow> None)
      else if c \<in> set ''()[]{}*+.^$'' then None
      else parseRegExp cs (Chr c # cur) done)"

text \<open>
  The regular expression of a keyword: \<open>keyword.length <= 2 ? new RegExp(`\\${keyword}`, 'g')
  : new RegExp(`\\b${keyword}\\b`, 'g')\<close>.
\<close>

definition keywordRegExp :: "string \<Rightarrow> regex option" where
  "keywordRegExp keyword =
     (if length keyword \<le> 2 then parseRegExp (CHR 0x5C # keyword) [] []
      else parseRegExp ([CHR 0x5C, CHR ''b''] @ keyword @ [CHR 0x5C, CHR ''b'']) [] [])"

text \<open>The inner loop over the keywords, for one trimmed line.\<close>

fun keywordLoop :: "string \<Rightarrow> int \<Rightarrow> string list \<Rightarrow> error + int" where
  "keywordLoop trimmed complexity [] = Inr complexity"
| "keywordLoop trimmed complexity (keyword # rest) =
     (case keywordRegExp keyword of
        None \<Rightarrow> Inl SyntaxError
      | Some r \<Rightarrow> keywordLoop trimmed (complexity + countMatches False r trimmed) rest)"

text \<open>
  The outer loop over the lines, with \<open>complexity\<close>, \<open>maxNesting\<close> and
  \<open>currentNesting\<close> as the state.
\<close>

fun complexityLoop :: "int \<times> int \<times> int \<Rightarrow> string list \<Rightarrow> error + int \<times> int \<times> int" where
  "complexityLoop st [] = Inr st"
| "complexityLoop (complexity, maxNesting, currentNesting) (line # rest) =
     (let trimmed = trim line in
      case keywordLoop trimmed complexity CONTROL_FLOW_KEYWORDS of
        Inl e \<Rightarrow> Inl e
      | Inr complexity' \<Rightarrow>
          let openBraces = countMatches False (Chr CHR ''{'') trimmed;
              closeBraces = countMatches False (Chr CHR ''}'') trimmed;
              nesting = currentNesting + (openBraces - closeBraces)
          in complexityLoop (complexity', max maxNesting nesting, nesting) rest)"

definition extractComplexityMetrics :: "string list \<Rightarrow> error + ComplexityMetrics" where
  "extractComplexityMetrics lines =
     (case complexityLoop (1, 0, 0) lines of
        Inl e \<Rightarrow> Inl e
      | Inr (complexity, maxNesting, currentNesting) \<Rightarrow>
          Inr \<lparr> cyclomaticComplexity = complexity, nestingDepth = maxNesting \<rparr>)"

subsection \<open>\<open>extractNamingMetrics\<close>\<close>

definition commonKeywords :: "string list" where
  "commonKeywords =
     [''if'', ''else'', ''for'', ''while'', ''do'', ''switch'', ''case'', ''break'', ''continue'',
      ''return'', ''function'', ''class'', ''const'', ''let'', ''var'', ''import'', ''export'',
      ''from'', ''try'', ''catch'', ''finally'', ''throw'', ''new'', ''this'', ''super'',
      ''public'', ''private'', ''protected'', ''static'', ''void'', ''int'', ''string'',
      ''boolean'', ''true'', ''false'', ''null'', ''undefined'', ''async'', ''await'',
      ''def'', ''self'', ''None'', ''True'', ''False'', ''and'', ''or'', ''not'', ''in'',
      ''fn'', ''let'', ''mut'', ''pub'', ''impl'', ''struct'', ''enum'', ''trait'',
      ''func'', ''package'', ''type'', ''interface'', ''map'', ''range'', ''defer'']"

definition isKeyword :: "string \<Rightarrow> string \<Rightarrow> bool" where
  "isKeyword word langKey =
     (toLowerCase word \<in> set commonKeywords \<or> word \<in> set commonKeywords)"

text \<open>
  \<open>/\b([a-zA-Z_][a-zA-Z0-9_]*)\b/g\<close> and \<open>/\b([a-zA-Z])\b/g\<close>; in both the group is
  the whole match, and no match is empty.
\<close>

definition identifierPattern :: regex where
  "identifierPattern =
     seqs [WordB,
           OneOf [Between CHR ''a'' CHR ''z'', Between CHR ''A'' CHR ''Z'', Single CHR ''_''],
           Star (OneOf [Between CHR ''a'' CHR ''z'', Between CHR ''A'' CHR ''Z'',
                        Between CHR ''0'' CHR ''9'', Single CHR ''_'']),
           WordB]"

definition singleCharPattern :: regex where
  "singleCharPattern =
     seqs [WordB, OneOf [Between CHR ''a'' CHR ''z'', Between CHR ''A'' CHR ''Z''], WordB]"

definition extractNamingMetrics :: "string \<Rightarrow> string \<Rightarrow> NamingMetrics" where
  "extractNamingMetrics code langKey =
     (let identifiers =
            filter (\<lambda>name. length name > 1 \<and> \<not> isKeyword name langKey)
              (matchAll False identifierPattern 0 None code)
      in if length identifiers = 0 then
           \<lparr> averageVariableNameLength = Fin 0, camelCaseRatio = Fin 0, snake_caseRatio = Fin 0,
             singleCharVarCount = 0 \<rparr>
         else
           let totalLength = sum_list (map (\<lambda>name. int (length name)) identifiers);
               avgLength = js_div (real_of_int totalLength) (real (length identifiers));
               singleCharCount =
                 int (length (filter (\<lambda>name. \<not> isKeyword name langKey)
                                (matchAll False singleCharPattern 0 None code)));
               camelCaseCount =
                 int (length (filter
                   (test (seqs [OneOf [Between CHR ''a'' CHR ''z''], OneOf [Between CHR ''A'' CHR ''Z'']]))
                   identifiers));
               snakeCaseCount =
                 int (length (filter
                   (test (seqs [OneOf [Between CHR ''a'' CHR ''z''], Chr CHR ''_'',
                                OneOf [Between CHR ''a'' CHR ''z'']]))
                   identifiers))
           in \<lparr> averageVariableNameLength = round2 avgLength,
                camelCaseRatio =
                  round2 (js_div (real_of_int camelCaseCount) (real (length identifiers))),
                snake_caseRatio =
                  round2 (js_div (real_of_int snakeCaseCount) (real (length identifiers))),
                singleCharVarCount = singleCharCount \<rparr>)"

subsection \<open>\<open>extractQualityMetrics\<close>\<close>

text \<open>
  \<open>lineCount\<close> is an object literal used as a dictionary from lines to counts, so it
  inherits the properties of \<open>Object.prototype\<close>. For a line that is one of their names,
  \<open>lineCount[line] || 0\<close> is not a number, and neither is what the statement stores: such
  a value later fails the test \<open>count > 1\<close>. The value of a key is a number or not.
\<close>

definition objectPrototypeKeys :: "string list" where
  "objectPrototypeKeys =
     [''constructor'', ''__defineGetter__'', ''__defineSetter__'', ''hasOwnProperty'',
      ''__lookupGetter__'', ''__lookupSetter__'', ''isPrototypeOf'', ''propertyIsEnumerable'',
      ''toString'', ''valueOf'', ''__proto__'', ''toLocaleString'']"

datatype countValue = Count int | NotANumber

text \<open>\<open>lineCount[line] = (lineCount[line] || 0) + 1\<close>.\<close>

fun countLine :: "(string \<times> countValue) list \<Rightarrow> string \<Rightarrow> (string \<times> countValue) list" where
  "countLine [] line =
     [(line, if line \<in> set objectPrototypeKeys then NotANumber else Count 1)]"
| "countLine ((k, v) # d) line =
     (if k = line then (k, (case v of Count n \<Rightarrow> Count (n + 1) | NotANumber \<Rightarrow> NotANumber)) # d
      else (k, v) # countLine d line)"

text \<open>The loop over \<open>Object.values(lineCount)\<close>.\<close>

fun duplicateLoop :: "int \<Rightarrow> countValue list \<Rightarrow> int" where
  "duplicateLoop duplicateCount [] = duplicateCount"
| "duplicateLoop duplicateCount (v # vs) =
     (case v of
        Count n \<Rightarrow> duplicateLoop (if n > 1 then duplicateCount + (n - 1) else duplicateCount) vs
      | NotANumber \<Rightarrow> duplicateLoop duplicateCount vs)"

definition extractQualityMetrics :: "string list \<Rightarrow> QualityMetrics" where
  "extractQualityMetrics lines =
     (let normalizedLines = filter (\<lambda>l. length l > 0) (map trim lines);
          lineCount = foldl countLine [] normalizedLines;
          duplicateCount = duplicateLoop 0 (map snd lineCount);
          duplicateRatio =
            (if length normalizedLines > 0
             then js_div (real_of_int duplicateCount) (real (length normalizedLines))
             else Fin 0);
          longLines = int (length (filter (\<lambda>l. length l > 100) lines));
          longRatio =
            (if length lines > 0 then js_div (real_of_int longLines) (real (length lines))
             else Fin 0);
          fullCode = join CHR 0x0A lines;
          emptyBraces = countMatches False (seqs [Chr CHR ''{'', Star ws, Chr CHR ''}'']) fullCode;
          passStatements =
            countMatches True (seqs [Bol, Star ws, lit ''pass'', Star ws, Eol]) fullCode
      in \<lparr> duplicateLineRatio = round2 duplicateRatio, longLineRatio = round2 longRatio,
           emptyBlockCount = emptyBraces + passStatements \<rparr>)"

subsection \<open>\<open>extractTemporalMetrics\<close>\<close>

definition extractTemporalMetrics :: "FileMetrics option \<Rightarrow> TemporalMetrics" where
  "extractTemporalMetrics trackingMetrics =
     (case trackingMetrics of
        None \<Rightarrow> \<lparr> typingSpeed = Fin 0, editFrequency = Fin 0, pasteRatio = Fin 0 \<rparr>
      | Some tm \<Rightarrow>
          let activeTimeSeconds = real_of_int (fm_activeTimeMs tm) / 1000;
              speed =
                (if activeTimeSeconds > 0
                 then js_div (real_of_int (fm_keystrokeCount tm)) activeTimeSeconds else Fin 0);
              activeTimeMinutes = real_of_int (fm_activeTimeMs tm) / 60000;
              frequency =
                (if activeTimeMinutes > 0
                 then js_div (real_of_int (fm_editCount tm)) activeTimeMinutes else Fin 0);
              totalInputs = fm_keystrokeCount tm + fm_pasteCount tm;
              ratio =
                (if totalInputs > 0
                 then js_div (real_of_int (fm_pasteCount tm)) (real_of_int totalInputs) else Fin 0)
          in \<lparr> typingSpeed = round2 speed, editFrequency = round2 frequency,
               pasteRatio = round2 ratio \<rparr>)"

subsection \<open>\<open>shouldAnalyze\<close> and \<open>CodeFeatureExtractor.extract\<close>\<close>

definition shouldAnalyze :: "string \<Rightarrow> int \<Rightarrow> bool" where
  "shouldAnalyze filePath codeLength =
     (if \<not> isCodeFile filePath then False
      else if codeLength < 100 then False
      else if codeLength > 1024 * 1024 then False
      else True)"

text \<open>
  \<open>CodeFeatureExtractor.extract\<close>, named \<open>extractFeatures\<close> here; \<open>now\<close> is the reading
  of \<open>Date.now()\<close> and \<open>maxArguments\<close> the engine's bound on the arguments of a call.
  The helpers are called in the order of the source, and the first exception ends the
  call: the RangeError of \<open>extractStructuralMetrics\<close> comes before the SyntaxError of
  \<open>extractComplexityMetrics\<close>. The other helpers raise nothing.
\<close>

definition extractFeatures ::
  "nat \<Rightarrow> string \<Rightarrow> string \<Rightarrow> FileMetrics option \<Rightarrow> int \<Rightarrow> error + CodeFeatures" where
  "extractFeatures maxArguments code filePath trackingMetrics now =
     (let lang = detectLanguage filePath;
          extension = getExtension filePath;
          lines = split CHR 0x0A code;
          langKey = getLanguageKey lang;
          basic = extractBasicMetrics lines langKey
      in case extractStructuralMetrics maxArguments lines of
           Inl e \<Rightarrow> Inl e
         | Inr structural \<Rightarrow>
             let comments = extractCommentMetrics lines langKey (codeLines basic);
                 structure = extractCodeStructure lines langKey
             in case extractComplexityMetrics lines of
                  Inl e \<Rightarrow> Inl e
                | Inr complexity \<Rightarrow>
                    Inr \<lparr> basicMetrics = basic, structuralMetrics = structural,
                          commentMetrics = comments, codeStructure = structure,
                          complexityMetrics = complexity,
                          namingMetrics = extractNamingMetrics code langKey,
                          qualityMetrics = extractQualityMetrics lines,
                          temporalMetrics = extractTemporalMetrics trackingMetrics,
                          language = lang, fileExtension = extension, extractionTimestamp = now,
                          extractionVersion = EXTRACTION_VERSION \<rparr>)"

section \<open>Edit tracking: \<open>TrackingService.handleTextChange\<close>\<close>

subsection \<open>Events, session and service state\<close>

datatype EventType =
    SESSION_START | SESSION_STOP | KEYSTROKE | PASTE | TEXT_EDIT | FILE_SWITCH | FILE_OPEN
  | FILE_CLOSE | WINDOW_FOCUS | WINDOW_BLUR | IDLE_START | IDLE_END | CODE_ANALYSIS

datatype EstimatedSource = Clipboard | Autocomplete | UnknownSource

text \<open>
  The details of the events this handler records. \<open>KeystrokeDetail\<close> carries file,
  language, charactersAdded, charactersDeleted, linesAdded, linesDeleted and isTyping;
  \<open>PasteDetail\<close> carries file, language, charactersAdded, linesAdded and estimatedSource;
  \<open>EmptyDetail\<close> is the object \<open>{}\<close>.
\<close>

datatype EventDetail =
    KeystrokeDetail string string int int int int bool
  | PasteDetail string string int int EstimatedSource
  | EmptyDetail

text \<open>
  A recorded event. Its \<open>id\<close> is a fresh UUID and its \<open>userId\<close> a constant of the
  service; both are left out.
\<close>

record TrackingEvent =
  ev_sessionId :: string
  ev_timestamp :: int
  ev_type :: EventType
  ev_detail :: EventDetail

datatype SessionStatus = Active | Stopped | Uploaded | Failed

record TrackingSession =
  session_id :: string
  startTime :: int
  endTime :: "int option"
  totalDuration :: int
  activeDuration :: int
  idleDuration :: int
  totalKeystrokes :: int
  totalPastes :: int
  totalEdits :: int
  filesEdited :: "string list"
  languagesUsed :: "string list"
  codeAnalysesPerformed :: int
  status :: SessionStatus
  uploadAttempts :: int
  lastUploadAttempt :: "int option"

text \<open>
  The fields of the service that the handler reads or writes. \<open>fileMetrics\<close> is an object
  keyed by absolute file paths: an association list in insertion order.
  \<open>idleThresholdMs\<close> is the value \<open>config.getTracking().idleThresholdMs\<close>.
\<close>

record TrackingService =
  running :: bool
  session :: "TrackingSession option"
  lastActivity :: int
  tracker_keystrokeCount :: int
  events :: "TrackingEvent list"
  fileMetrics :: "(string \<times> FileMetrics) list"
  currentFile :: "string option"
  currentLanguage :: "string option"
  lastTextChangeTime :: int
  idleThresholdMs :: int

text \<open>The editor's document and change event, as far as the handler looks at them.\<close>

record TextDocument =
  uri_scheme :: string
  uri_fsPath :: string
  documentText :: string

record ContentChange =
  change_text :: string
  rangeLength :: int
  range_start_line :: int
  range_end_line :: int

record TextDocumentChangeEvent =
  document :: TextDocument
  contentChanges :: "ContentChange list"

text \<open>
  The readings of \<open>Date.now()\<close> during one call, in the order in which they are taken: by
  the handler itself, by \<open>ensureFileMetrics\<close> for \<open>firstSeen\<close> and for \<open>lastActive\<close>,
  and by \<open>markActivity\<close>.
\<close>

record Clock =
  now :: int
  nowFirstSeen :: int
  nowLastActive :: int
  nowActivity :: int

datatype exn = TypeError

subsection \<open>Helpers of the handler\<close>

definition shouldTrackDocument :: "TextDocument \<Rightarrow> bool" where
  "shouldTrackDocument doc =
     (if uri_scheme doc \<noteq> ''file'' then False
      else if str_includes (uri_fsPath doc) ''extension-output-''
              \<or> str_includes (uri_fsPath doc) ''output-''
              \<or> str_includes (uri_fsPath doc) ''[Extension Host]'' then False
      else if int (length (documentText doc)) > 10 * 1024 * 1024 then False
      else True)"

text \<open>\<open>this.fileMetrics[file].field = ...\<close> for an existing key.\<close>

definition updateMetrics ::
  "string \<Rightarrow> (FileMetrics \<Rightarrow> FileMetrics) \<Rightarrow> (string \<times> FileMetrics) list \<Rightarrow> (string \<times> FileMetrics) list" where
  "updateMetrics f g ms = map (\<lambda>(k, v). if k = f then (k, g v) else (k, v)) ms"

definition pushUnique :: "string \<Rightarrow> string list \<Rightarrow> string list" where
  "pushUnique x xs = (if x \<in> set xs then xs else xs @ [x])"

definition ensureFileMetrics :: "string \<Rightarrow> string \<Rightarrow> Clock \<Rightarrow> TrackingService \<Rightarrow> TrackingService" where
  "ensureFileMetrics f lang clk svc =
     (case map_of (fileMetrics svc) f of
        Some m \<Rightarrow> svc
      | None \<Rightarrow>
          svc \<lparr> fileMetrics :=
                  fileMetrics svc
                  @ [(f, (newFileMetrics f lang (nowFirstSeen clk)) \<lparr> fm_lastActive := nowLastActive clk \<rparr>)],
                session :=
                  map_option
                    (\<lambda>s. s \<lparr> filesEdited := pushUnique f (filesEdited s),
                             languagesUsed := pushUnique lang (languagesUsed s) \<rparr>)
                    (session svc) \<rparr>)"

definition updateFileActiveTime :: "string \<Rightarrow> int \<Rightarrow> TrackingService \<Rightarrow> TrackingService" where
  "updateFileActiveTime f t svc =
     (case map_of (fileMetrics svc) f of
        None \<Rightarrow> svc
      | Some m \<Rightarrow>
          let elapsed = t - fm_lastActive m
          in svc \<lparr> fileMetrics :=
                     updateMetrics f
                       (\<lambda>v. v \<lparr> fm_activeTimeMs :=
                                  (if elapsed < idleThresholdMs svc then fm_activeTimeMs v + elapsed
                                   else fm_activeTimeMs v),
                                fm_lastActive := t,
                                fm_totalTimeMs := fm_totalTimeMs v + elapsed \<rparr>)
                       (fileMetrics svc) \<rparr>)"

definition recordEvent :: "int \<Rightarrow> EventType \<Rightarrow> EventDetail \<Rightarrow> TrackingService \<Rightarrow> TrackingService" where
  "recordEvent t ty d svc =
     svc \<lparr> events :=
             events svc
             @ [\<lparr> ev_sessionId = (case session svc of None \<Rightarrow> ''unknown'' | Some s \<Rightarrow> session_id s),
                  ev_timestamp = t, ev_type = ty, ev_detail = d \<rparr>] \<rparr>"

definition markActivity :: "Clock \<Rightarrow> TrackingService \<Rightarrow> TrackingService" where
  "markActivity clk svc =
     (let wasIdle = (events svc \<noteq> [] \<and> ev_type (last (events svc)) = IDLE_START);
          svc1 = svc \<lparr> lastActivity := nowActivity clk \<rparr>
      in if wasIdle then recordEvent (nowActivity clk) IDLE_END EmptyDetail svc1 else svc1)"

subsection \<open>The handler\<close>

text \<open>
  The loop over \<open>e.contentChanges\<close>, with \<open>totalAdded\<close>, \<open>totalDeleted\<close>,
  \<open>linesAdded\<close> and \<open>linesDeleted\<close> as the state. The added lines of a change are the
  matches of \<open>/\n/g\<close> in its text.
\<close>

fun changeLoop :: "int \<times> int \<times> int \<times> int \<Rightarrow> ContentChange list \<Rightarrow> int \<times> int \<times> int \<times> int" where
  "changeLoop st [] = st"
| "changeLoop (added, deleted, newLs, delLs) (change # rest) =
     changeLoop
       (added + int (length (change_text change)),
        deleted + rangeLength change,
        newLs + countMatches False (Chr CHR 0x0A) (change_text change),
        delLs + (range_end_line change - range_start_line change))
       rest"

text \<open>
  The value of \<open>isPaste\<close>: \<open>detectPaste\<close> applied to the added characters, the time
  since the last text change and the added lines. The deleted characters and lines are not
  among its arguments.
\<close>

definition classifyChange :: "TrackingService \<Rightarrow> TextDocumentChangeEvent \<Rightarrow> Clock \<Rightarrow> bool" where
  "classifyChange svc e clk =
     (case changeLoop (0, 0, 0, 0) (contentChanges e) of
        (added, deleted, newLs, delLs) \<Rightarrow> detectPaste added (now clk - lastTextChangeTime svc) newLs)"

text \<open>
  \<open>this.session!.field++\<close>: a TypeError when the session is \<open>null\<close>. The state at the
  moment of the exception is not kept.
\<close>

definition withSession ::
  "(TrackingSession \<Rightarrow> TrackingSession) \<Rightarrow> TrackingService \<Rightarrow> exn + TrackingService" where
  "withSession g svc =
     (case session svc of
        None \<Rightarrow> Inl TypeError
      | Some s \<Rightarrow> Inr (svc \<lparr> session := Some (g s) \<rparr>))"

definition handleTextChange ::
  "TrackingService \<Rightarrow> TextDocumentChangeEvent \<Rightarrow> Clock \<Rightarrow> exn + TrackingService" where
  "handleTextChange svc e clk =
     (if \<not> shouldTrackDocument (document e) then Inr svc
      else
        let f = uri_fsPath (document e);
            lang = detectLanguage f
        in case changeLoop (0, 0, 0, 0) (contentChanges e) of
             (added, deleted, newLs, delLs) \<Rightarrow>
               if added = 0 \<and> deleted = 0 then Inr svc
               else
                 let isPaste = classifyChange svc e clk;
                     svc1 = ensureFileMetrics f lang clk svc;
                     counted =
                       (if isPaste then
                          (case withSession (\<lambda>s. s \<lparr> totalPastes := totalPastes s + 1 \<rparr>)
                                  (svc1 \<lparr> fileMetrics :=
                                           updateMetrics f
                                             (\<lambda>v. v \<lparr> fm_pasteCount := fm_pasteCount v + 1 \<rparr>)
                                             (fileMetrics svc1) \<rparr>) of
                             Inl x \<Rightarrow> Inl x
                           | Inr s2 \<Rightarrow>
                               Inr (recordEvent (now clk) PASTE
                                      (PasteDetail f lang added newLs
                                         (if added > 200 then Clipboard else Autocomplete)) s2))
                        else
                          Inr (recordEvent (now clk) KEYSTROKE
                                 (KeystrokeDetail f lang added deleted newLs delLs True)
                                 (svc1 \<lparr> fileMetrics :=
                                          updateMetrics f
                                            (\<lambda>v. v \<lparr> fm_keystrokeCount := fm_keystrokeCount v + added \<rparr>)
                                            (fileMetrics svc1),
                                        tracker_keystrokeCount := tracker_keystrokeCount svc1 + added \<rparr>)))
                 in case counted of
                      Inl x \<Rightarrow> Inl x
                    | Inr svc2 \<Rightarrow>
                        (case withSession (\<lambda>s. s \<lparr> totalEdits := totalEdits s + 1 \<rparr>)
                                (svc2 \<lparr> fileMetrics :=
                                         updateMetrics f
                                           (\<lambda>v. v \<lparr> fm_editCount := fm_editCount v + 1,
                                                    fm_linesAdded := fm_linesAdded v + newLs,
                                                    fm_linesDeleted := fm_linesDeleted v + delLs \<rparr>)
                                           (fileMetrics svc2) \<rparr>) of
                           Inl x \<Rightarrow> Inl x
                         | Inr svc3 \<Rightarrow>
                             let svc4 =
                                   svc3 \<lparr> fileMetrics :=
                                     updateMetrics f
                                       (\<lambda>v. v \<lparr> fm_typingToTotalRatio :=
                                                  (if fm_keystrokeCount v + fm_pasteCount v > 0
                                                   then real_of_int (fm_keystrokeCount v)
                                                        / real_of_int (fm_keystrokeCount v + fm_pasteCount v)
                                                   else 0) \<rparr>)
                                       (fileMetrics svc3) \<rparr>;
                                 svc5 = updateFileActiveTime f (now clk) svc4
                             in Inr (markActivity clk (svc5 \<lparr> lastTextChangeTime := now clk \<rparr>))))"

text \<open>The pastes counted for a file, 0 for a file without counters.\<close>

definition pastesCounted :: "TrackingService \<Rightarrow> string \<Rightarrow> int" where
  "pastesCounted svc f = (case map_of (fileMetrics svc) f of None \<Rightarrow> 0 | Some m \<Rightarrow> fm_pasteCount m)"

subsection \<open>A sample service state and two changes that differ in what they delete\<close>

text \<open>
  Both changes insert the same 60 characters 2 ms after the previous change; the second
  one also replaces 17 characters spanning 6 lines.
\<close>

definition sampleSession :: TrackingSession where
  "sampleSession =
     \<lparr> session_id = ''s1'', startTime = 0, endTime = None, totalDuration = 0, activeDuration = 0,
       idleDuration = 0, totalKeystrokes = 0, totalPastes = 0, totalEdits = 0, filesEdited = [],
       languagesUsed = [], codeAnalysesPerformed = 0, status = Active, uploadAttempts = 0,
       lastUploadAttempt = None \<rparr>"

definition sampleService :: TrackingService where
  "sampleService =
     \<lparr> running = True, session = Some sampleSession, lastActivity = 0, tracker_keystrokeCount = 0,
       events = [], fileMetrics = [], currentFile = None, currentLanguage = None,
       lastTextChangeTime = 1000, idleThresholdMs = 30000 \<rparr>"

definition sampleDocument :: TextDocument where
  "sampleDocument = \<lparr> uri_scheme = ''file'', uri_fsPath = ''/w/a.ts'', documentText = [] \<rparr>"

definition insertOnly :: TextDocumentChangeEvent where
  "insertOnly =
     \<lparr> document = sampleDocument,
       contentChanges = [\<lparr> change_text = replicate 60 CHR ''x'', rangeLength = 0,
                           range_start_line = 3, range_end_line = 3 \<rparr>] \<rparr>"

definition insertReplacing :: TextDocumentChangeEvent where
  "insertReplacing =
     \<lparr> document = sampleDocument,
       contentChanges = [\<lparr> change_text = replicate 60 CHR ''x'', rangeLength = 17,
                           range_start_line = 3, range_end_line = 9 \<rparr>] \<rparr>"

definition sampleClock :: Clock where
  "sampleClock = \<lparr> now = 1002, nowFirstSeen = 1002, nowLastActive = 1002, nowActivity = 1003 \<rparr>"

subsection \<open>Notions used to state the properties of feature extraction\<close>

text \<open>
  The denominators of three of the extractor's divisions: the widths of the space-indented
  lines (\<open>indentSizes\<close>), the retained identifiers (\<open>identifiers\<close>) and the trimmed
  non-blank lines (\<open>normalizedLines\<close>).
\<close>

definition spaceIndentSizes :: "string list \<Rightarrow> int list" where
  "spaceIndentSizes lines =
     (case indentLoop (0, 0, [])
             (filter (\<lambda>l. length l > 0 \<and> test (seqs [Bol, Plus ws]) l) lines) of
        (tabCount, spaceCount, indentSizes) \<Rightarrow> indentSizes)"





text \<open>The text of \<open>n\<close> line feeds, \<open>'\n'.repeat(n)\<close>: \<open>n + 1\<close> empty lines.\<close>

definition lineFeeds :: "nat \<Rightarrow> string" where
  "lineFeeds n = replicate n (CHR 0x0A)"

section \<open>Properties of the paste classifier\<close>

text \<open>
  Claim C1. The classifier is a function of (charactersAdded, gap, linesAdded) alone and
  agrees, on every input, with the specification's ordered rule list evaluated first match
  wins. In particular at most 30 added characters is always typing, whatever the gap and
  the line count, and more than 300 added characters is always paste, whatever the gap.
\<close>

theorem detectPaste_rules:
  "(detectPaste c g l \<longleftrightarrow> spec_classify c g l = Paste)
   \<and> (c \<le> 30 \<longrightarrow> \<not> detectPaste c g l)
   \<and> (c > 300 \<longrightarrow> detectPaste c g l)"
  by (simp add: detectPaste_def spec_classify_def spec_rules_def)

theorem detectPaste_rules_witness:
  "(detectPaste 25 1 5 \<longleftrightarrow> spec_classify 25 1 5 = Paste)
   \<and> \<not> detectPaste 25 1 5
   \<and> (detectPaste 400 10000 0 \<longleftrightarrow> spec_classify 400 10000 0 = Paste)
   \<and> detectPaste 400 10000 0"
  using detectPaste_rules [of 25 1 5] detectPaste_rules [of 400 10000 0] by auto

text \<open>
  Claim C2, as stated, fails: 120 added characters after a gap of 15 ms with no
  multi-line insertion is typing. Rule 4 needs more than 150 characters and rule 5 a gap
  below 10 ms.
\<close>

theorem detectPaste_120_15_counterexample: "\<not> detectPaste 120 15 0"
  by (simp add: detectPaste_def)

text \<open>
  Claim C2, amended. For 120 added characters and a gap of 15 ms the classifier answers
  paste exactly when at least 3 lines were added (rule 2); with fewer added lines, and so
  with no multi-line insertion, it answers typing.
\<close>

theorem detectPaste_120_15: "detectPaste 120 15 l \<longleftrightarrow> 3 \<le> l"
  by (simp add: detectPaste_def)

text \<open>
  Claim C7. With the gap fixed at 0 ms and the number of added lines held fixed, the
  classifier is monotone in the number of added characters: if it answers paste for
  \<open>c1\<close> it answers paste for every \<open>c2 \<ge> c1\<close>.
\<close>

theorem detectPaste_monotone_gap0:
  "c1 \<le> c2 \<Longrightarrow> detectPaste c1 0 l \<Longrightarrow> detectPaste c2 0 l"
  by (auto simp: detectPaste_def split: if_splits)

theorem detectPaste_monotone_gap0_witness:
  "(51::int) \<le> 60 \<and> detectPaste 51 0 0 \<and> detectPaste 60 0 0"
proof -
  have le: "(51::int) \<le> 60" by simp
  have p: "detectPaste 51 0 0" by (simp add: detectPaste_def)
  from detectPaste_monotone_gap0 [OF le p] le p show ?thesis by simp
qed

section \<open>Properties of the skill scorer\<close>

lemma Math_round_range: "0 \<le> x \<Longrightarrow> x \<le> 100 \<Longrightarrow> 0 \<le> Math_round x \<and> Math_round x \<le> 100"
  unfolding Math_round_def by linarith

lemma Math_round_le: "x \<le> real_of_int b \<Longrightarrow> Math_round x \<le> b"
  unfolding Math_round_def by linarith

lemma Math_round_ge: "real_of_int a \<le> x \<Longrightarrow> a \<le> Math_round x"
  unfolding Math_round_def by linarith

lemma Math_round_int_fifth: "Math_round (real_of_int s / 5) = (2 * s + 5) div 10"
  unfolding Math_round_def
proof -
  have "real_of_int s / 5 + 1 / 2 = real_of_int (2 * s + 5) / real_of_int 10" by simp
  then show "\<lfloor>real_of_int s / 5 + 1 / 2\<rfloor> = (2 * s + 5) div 10"
    by (simp only: floor_divide_of_int_eq)
qed

lemma sum_list_lower: "\<forall>x\<in>set xs. a \<le> x \<Longrightarrow> a * int (length xs) \<le> sum_list xs"
  by (induction xs) (auto simp: algebra_simps)

lemma sum_list_upper: "\<forall>x\<in>set xs. x \<le> b \<Longrightarrow> sum_list xs \<le> b * int (length xs)"
  by (induction xs) (auto simp: algebra_simps)

lemma mean_round_between:
  assumes "xs \<noteq> []" "\<forall>x\<in>set xs. a \<le> x" "\<forall>x\<in>set xs. x \<le> (b::int)"
  shows "a \<le> Math_round (real_of_int (sum_list xs) / real (length xs))
       \<and> Math_round (real_of_int (sum_list xs) / real (length xs)) \<le> b"
proof -
  let ?n = "real (length xs)"
  have n: "0 < ?n" using assms(1) by simp
  have "real_of_int (a * int (length xs)) \<le> real_of_int (sum_list xs)"
    using sum_list_lower [OF assms(2)] by (simp only: of_int_le_iff)
  then have lo: "real_of_int a \<le> real_of_int (sum_list xs) / ?n"
    using n by (simp add: pos_le_divide_eq)
  have "real_of_int (sum_list xs) \<le> real_of_int (b * int (length xs))"
    using sum_list_upper [OF assms(3)] by (simp only: of_int_le_iff)
  then have hi: "real_of_int (sum_list xs) / ?n \<le> real_of_int b"
    using n by (simp add: pos_divide_le_eq)
  show ?thesis using Math_round_ge [OF lo] Math_round_le [OF hi] by simp
qed


lemma scores_of_calculate:
  "map score (calculateCategoryScores m) =
     [Math_round (typingToTotalRatio m * 100),
      max 0 (Math_round (100 - (if real_of_int (activeTimeMs m) / 60000 > 0
               then real_of_int (editCount m) / (real_of_int (activeTimeMs m) / 60000) else 0) * 10)),
      Math_round (focusRatio m * 100),
      max 0 (Math_round ((1 - backspaceRatio m) * 100)),
      min 100 (int (length (languages m)) * 20)]"
  by (simp add: calculateCategoryScores_def mkScore_def Let_def)

lemma coding_range:
  "0 \<le> r \<Longrightarrow> r \<le> 1 \<Longrightarrow> 0 \<le> Math_round (r * 100) \<and> Math_round (r * 100) \<le> 100"
  by (rule Math_round_range) simp_all

lemma problem_range:
  assumes "0 \<le> e"
  shows "0 \<le> max 0 (Math_round (100 - e * 10)) \<and> max 0 (Math_round (100 - e * 10)) \<le> 100"
proof -
  have "100 - e * 10 \<le> real_of_int 100" using assms by simp
  from Math_round_le [OF this] show ?thesis by simp
qed

lemma quality_range:
  assumes "0 \<le> b"
  shows "0 \<le> max 0 (Math_round ((1 - b) * 100)) \<and> max 0 (Math_round ((1 - b) * 100)) \<le> 100"
proof -
  have "(1 - b) * 100 \<le> real_of_int 100" using assms by simp
  from Math_round_le [OF this] show ?thesis by simp
qed

lemma editsPerMinute_nonneg:
  "0 \<le> (e::int) \<Longrightarrow>
   0 \<le> (if real_of_int a / 60000 > 0 then real_of_int e / (real_of_int a / 60000) else 0)"
  by simp

lemma scores_in_range:
  assumes "0 \<le> typingToTotalRatio m" "typingToTotalRatio m \<le> 1"
      and "0 \<le> focusRatio m" "focusRatio m \<le> 1"
      and "0 \<le> backspaceRatio m" "0 \<le> editCount m"
  shows "\<forall>x\<in>set (map score (calculateCategoryScores m)). 0 \<le> x \<and> x \<le> 100"
  unfolding scores_of_calculate
  using coding_range [OF assms(1,2)] coding_range [OF assms(3,4)] quality_range [OF assms(5)]
    problem_range [OF editsPerMinute_nonneg [OF assms(6), of "activeTimeMs m"]]
  by simp

lemma length_calculate: "length (calculateCategoryScores m) = 5"
  by (simp add: calculateCategoryScores_def Let_def)

lemma overall_between:
  "Min (set (map score (calculateCategoryScores m))) \<le> overallScore (buildSkillProfile (calculateCategoryScores m))
   \<and> overallScore (buildSkillProfile (calculateCategoryScores m)) \<le> Max (set (map score (calculateCategoryScores m)))"
proof -
  let ?xs = "map score (calculateCategoryScores m)"
  have ne: "?xs \<noteq> []" using length_calculate [of m] by auto
  have lo: "\<forall>x\<in>set ?xs. Min (set ?xs) \<le> x" by simp
  have hi: "\<forall>x\<in>set ?xs. x \<le> Max (set ?xs)" by simp
  from mean_round_between [OF ne lo hi] show ?thesis
    by (simp add: buildSkillProfile_def Let_def)
qed

lemma clamped_scores:
  "0 \<le> score (calculateCategoryScores m ! 1)
   \<and> 0 \<le> score (calculateCategoryScores m ! 3)
   \<and> 0 \<le> score (calculateCategoryScores m ! 4)
   \<and> score (calculateCategoryScores m ! 4) \<le> 100"
  by (simp add: calculateCategoryScores_def mkScore_def Let_def)

lemma unclamped_scores:
  "score (calculateCategoryScores m ! 0) = Math_round (typingToTotalRatio m * 100)
   \<and> score (calculateCategoryScores m ! 2) = Math_round (focusRatio m * 100)"
  by (simp add: calculateCategoryScores_def mkScore_def Let_def)

text \<open>
  Claim C8, as stated, fails. The coding and the focus score are the rounded percentages
  of the typing and of the focus ratio, with no clamp: for \<open>unboundedRatioMetrics\<close> they
  are 200 and -100. Such a record also comes out of \<open>analyzeSkill\<close>: with 2 ms of active
  and -1 ms of idle time the focus ratio is 2 and the focus score 200.
\<close>

theorem category_scores_unclamped_counterexample:
  "map score (calculateCategoryScores unboundedRatioMetrics) = [200, 60, - 100, 50, 20]
   \<and> map score (categoryScores (fst (analyzeSkill [] 2 (- 1)))) = [0, 100, 200, 100, 0]"
proof -
  have a: "map score (calculateCategoryScores unboundedRatioMetrics) = [200, 60, - 100, 50, 20]"
    by (simp add: scores_of_calculate unboundedRatioMetrics_def sampleMetrics_def Math_round_def)
  have b: "map score (categoryScores (fst (analyzeSkill [] 2 (- 1)))) = [0, 100, 200, 100, 0]"
    by (simp add: analyzeSkill_def Let_def buildSkillProfile_def scores_of_calculate
        extractBehavioralMetrics_def Math_round_def)
  show ?thesis using a b by simp
qed

text \<open>
  Claim C8, amended. For every behavioural metrics record the scorer produces five category
  scores, the overall score is their unweighted mean rounded to the nearest integer
  (halves up), and it lies between the smallest and the largest category score. Each
  category score lies in [0,100] whenever the ratios of the record are ratios: typing and
  focus ratio in [0,1], backspace ratio and edit count not negative. These are the records
  that \<open>extractBehavioralMetrics\<close> derives from counters and times that are not negative
  (\<open>extract_metrics_ranges\<close>, \<open>analyzeSkill_scores_in_range\<close> below). For every record,
  the coding and the focus score are the rounded percentages of the typing and of the focus
  ratio, the problem-solving and the quality score are at least 0, and the versatility
  score lies in [0,100].
\<close>

theorem category_scores_bounded:
  "(let cs = calculateCategoryScores m; p = buildSkillProfile cs in
      length cs = 5
      \<and> (0 \<le> typingToTotalRatio m \<and> typingToTotalRatio m \<le> 1
          \<and> 0 \<le> focusRatio m \<and> focusRatio m \<le> 1
          \<and> 0 \<le> backspaceRatio m \<and> 0 \<le> editCount m
          \<longrightarrow> (\<forall>s\<in>set cs. 0 \<le> score s \<and> score s \<le> 100))
      \<and> score (cs ! 0) = Math_round (typingToTotalRatio m * 100)
      \<and> score (cs ! 2) = Math_round (focusRatio m * 100)
      \<and> 0 \<le> score (cs ! 1) \<and> 0 \<le> score (cs ! 3)
      \<and> 0 \<le> score (cs ! 4) \<and> score (cs ! 4) \<le> 100
      \<and> overallScore p = Math_round (real_of_int (sum_list (map score cs)) / 5)
      \<and> overallScore p = (2 * sum_list (map score cs) + 5) div 10
      \<and> Min (set (map score cs)) \<le> overallScore p
      \<and> overallScore p \<le> Max (set (map score cs)))"
proof -
  let ?cs = "calculateCategoryScores m"
  have r: "0 \<le> typingToTotalRatio m \<and> typingToTotalRatio m \<le> 1
          \<and> 0 \<le> focusRatio m \<and> focusRatio m \<le> 1
          \<and> 0 \<le> backspaceRatio m \<and> 0 \<le> editCount m
          \<longrightarrow> (\<forall>s\<in>set ?cs. 0 \<le> score s \<and> score s \<le> 100)"
    using scores_in_range [of m] by simp
  have o: "overallScore (buildSkillProfile ?cs) = Math_round (real_of_int (sum_list (map score ?cs)) / 5)"
    by (simp add: buildSkillProfile_def Let_def length_calculate)
  have o': "overallScore (buildSkillProfile ?cs) = (2 * sum_list (map score ?cs) + 5) div 10"
    by (simp only: o Math_round_int_fifth)
  show ?thesis
    unfolding Let_def
    using r o o' overall_between [of m] length_calculate [of m] clamped_scores [of m]
      unclamped_scores [of m]
    by blast
qed

theorem category_scores_bounded_witness:
  "0 \<le> typingToTotalRatio sampleMetrics \<and> typingToTotalRatio sampleMetrics \<le> 1
   \<and> 0 \<le> focusRatio sampleMetrics \<and> focusRatio sampleMetrics \<le> 1
   \<and> 0 \<le> backspaceRatio sampleMetrics \<and> 0 \<le> editCount sampleMetrics
   \<and> map score (calculateCategoryScores sampleMetrics) = [60, 60, 50, 50, 20]
   \<and> list_all (\<lambda>s. 0 \<le> score s \<and> score s \<le> 100) (calculateCategoryScores sampleMetrics)
   \<and> overallScore (buildSkillProfile (calculateCategoryScores sampleMetrics)) = 48
   \<and> Min (set (map score (calculateCategoryScores sampleMetrics))) \<le> 48
   \<and> 48 \<le> Max (set (map score (calculateCategoryScores sampleMetrics)))"
proof -
  have h: "0 \<le> typingToTotalRatio sampleMetrics \<and> typingToTotalRatio sampleMetrics \<le> 1
     \<and> 0 \<le> focusRatio sampleMetrics \<and> focusRatio sampleMetrics \<le> 1
     \<and> 0 \<le> backspaceRatio sampleMetrics \<and> 0 \<le> editCount sampleMetrics"
    by (simp add: sampleMetrics_def)
  have v: "map score (calculateCategoryScores sampleMetrics) = [60, 60, 50, 50, 20]"
    by (simp add: scores_of_calculate sampleMetrics_def Math_round_def)
  from category_scores_bounded [of sampleMetrics] h
  have t: "(\<forall>s\<in>set (calculateCategoryScores sampleMetrics). 0 \<le> score s \<and> score s \<le> 100)
     \<and> overallScore (buildSkillProfile (calculateCategoryScores sampleMetrics))
         = (2 * sum_list (map score (calculateCategoryScores sampleMetrics)) + 5) div 10
     \<and> Min (set (map score (calculateCategoryScores sampleMetrics)))
         \<le> overallScore (buildSkillProfile (calculateCategoryScores sampleMetrics))
     \<and> overallScore (buildSkillProfile (calculateCategoryScores sampleMetrics))
         \<le> Max (set (map score (calculateCategoryScores sampleMetrics)))"
    unfolding Let_def by blast
  have o: "overallScore (buildSkillProfile (calculateCategoryScores sampleMetrics)) = 48"
    using t by (simp add: v)
  show ?thesis using h v t o by (simp add: list_all_iff)
qed

section \<open>Properties of the behavioural metrics\<close>

lemma keys_countLanguage:
  "map fst (countLanguage d l) = (if l \<in> set (map fst d) then map fst d else map fst d @ [l])"
  by (induction d l rule: countLanguage.induct) auto

lemma map_of_countLanguage:
  "map_of (countLanguage d l) =
     (map_of d)(l \<mapsto> (case map_of d l of None \<Rightarrow> 1 | Some n \<Rightarrow> n + 1))"
  by (induction d l rule: countLanguage.induct) (auto simp: fun_eq_iff)

lemma keys_foldl_countLanguage:
  "map fst (foldl countLanguage [] ls) = rev (remdups (rev ls))"
proof (induction ls rule: rev_induct)
  case Nil
  show ?case by simp
next
  case (snoc x xs)
  have "set (map fst (foldl countLanguage [] xs)) = set xs"
    by (simp only: snoc.IH) simp
  then show ?case
    using snoc.IH by (simp add: keys_countLanguage)
qed

lemma map_of_foldl_countLanguage:
  "map_of (foldl countLanguage [] ls) l =
     (if l \<in> set ls then Some (int (length (filter (\<lambda>x. x = l) ls))) else None)"
proof (induction ls rule: rev_induct)
  case Nil
  show ?case by simp
next
  case (snoc x xs)
  then show ?case
    by (auto simp: map_of_countLanguage filter_empty_conv)
qed

lemma pick_step:
  fixes d :: "(string \<times> int) list"
  defines "cnt \<equiv> \<lambda>x. the (map_of d x)"
  defines "step \<equiv> \<lambda>a b. if countGreater d a b then a else b"
  assumes keys: "set xs \<subseteq> dom (map_of d)"
  shows "\<exists>r. foldl step a0 xs = r \<and>
           ((r = a0 \<and> (\<forall>x\<in>set xs. countGreater d a0 x))
            \<or> (\<exists>pre post. xs = pre @ r # post
                  \<and> (\<forall>x\<in>set pre. cnt x \<le> cnt r) \<and> (\<forall>x\<in>set post. cnt x < cnt r)))"
  using keys
proof (induction xs rule: rev_induct)
  case Nil
  show ?case by simp
next
  case (snoc x xs)
  have kx: "x \<in> dom (map_of d)" and kxs: "set xs \<subseteq> dom (map_of d)"
    using snoc.prems by auto
  have cg: "\<And>a b. a \<in> dom (map_of d) \<Longrightarrow> b \<in> dom (map_of d) \<Longrightarrow> countGreater d a b = (cnt a > cnt b)"
    by (auto simp: countGreater_def cnt_def)
  have cgdom: "\<And>a b. countGreater d a b \<Longrightarrow> a \<in> dom (map_of d)"
    by (auto simp: countGreater_def split: option.splits)
  from snoc.IH [OF kxs] obtain r where r: "foldl step a0 xs = r"
    and alt: "(r = a0 \<and> (\<forall>y\<in>set xs. countGreater d a0 y))
              \<or> (\<exists>pre post. xs = pre @ r # post
                  \<and> (\<forall>y\<in>set pre. cnt y \<le> cnt r) \<and> (\<forall>y\<in>set post. cnt y < cnt r))"
    by blast
  have next_r: "foldl step a0 (xs @ [x]) = (if countGreater d r x then r else x)"
  proof -
    have "foldl step a0 (xs @ [x]) = step (foldl step a0 xs) x" by simp
    also have "\<dots> = step r x" by (simp only: r)
    finally show ?thesis by (simp only: step_def)
  qed
  have fresh: "\<And>z. \<forall>y\<in>set xs. cnt y \<le> cnt z \<Longrightarrow>
      \<exists>pre post. xs @ [z] = pre @ z # post
         \<and> (\<forall>y\<in>set pre. cnt y \<le> cnt z) \<and> (\<forall>y\<in>set post. cnt y < cnt z)"
  proof -
    fix z assume "\<forall>y\<in>set xs. cnt y \<le> cnt z"
    then have "xs @ [z] = xs @ z # [] \<and> (\<forall>y\<in>set xs. cnt y \<le> cnt z) \<and> (\<forall>y\<in>set []. cnt y < cnt z)"
      by simp
    then show "\<exists>pre post. xs @ [z] = pre @ z # post
         \<and> (\<forall>y\<in>set pre. cnt y \<le> cnt z) \<and> (\<forall>y\<in>set post. cnt y < cnt z)" by blast
  qed
  from alt show ?case
  proof (elim disjE conjE exE)
    assume ra: "r = a0" and all: "\<forall>y\<in>set xs. countGreater d a0 y"
    show ?thesis
    proof (cases "countGreater d a0 x")
      case True
      then show ?thesis using ra all next_r by simp
    next
      case False
      have "\<forall>y\<in>set xs. cnt y \<le> cnt x"
      proof
        fix y assume y: "y \<in> set xs"
        then have g: "countGreater d a0 y" using all by blast
        then have a0d: "a0 \<in> dom (map_of d)" by (rule cgdom)
        have yd: "y \<in> dom (map_of d)" using y kxs by blast
        have "cnt a0 > cnt y" using g cg [OF a0d yd] by simp
        moreover have "\<not> cnt a0 > cnt x" using False cg [OF a0d kx] by simp
        ultimately show "cnt y \<le> cnt x" by simp
      qed
      from fresh [OF this] show ?thesis using False ra next_r by simp
    qed
  next
    fix pre post
    assume dec: "xs = pre @ r # post" and lo: "\<forall>y\<in>set pre. cnt y \<le> cnt r"
      and hi: "\<forall>y\<in>set post. cnt y < cnt r"
    have "r \<in> set xs" by (subst dec) simp
    then have rd: "r \<in> dom (map_of d)" using kxs by blast
    show ?thesis
    proof (cases "countGreater d r x")
      case True
      have "cnt x < cnt r" using True cg [OF rd kx] by simp
      then have "xs @ [x] = pre @ r # (post @ [x]) \<and> (\<forall>y\<in>set pre. cnt y \<le> cnt r)
                 \<and> (\<forall>y\<in>set (post @ [x]). cnt y < cnt r)"
        using dec lo hi by simp
      then have "\<exists>pre post. xs @ [x] = pre @ r # post
         \<and> (\<forall>y\<in>set pre. cnt y \<le> cnt r) \<and> (\<forall>y\<in>set post. cnt y < cnt r)" by blast
      then show ?thesis using True next_r by simp
    next
      case False
      have le: "cnt r \<le> cnt x" using False cg [OF rd kx] by simp
      have "\<forall>y\<in>set xs. cnt y \<le> cnt x"
      proof
        fix y assume "y \<in> set xs"
        then have "y \<in> set pre \<or> y = r \<or> y \<in> set post" by (subst (asm) dec) auto
        then show "cnt y \<le> cnt x" using lo hi le by force
      qed
      from fresh [OF this] show ?thesis using False next_r by simp
    qed
  qed
qed


lemma countGreater_irrefl: "\<not> countGreater d a a"
  by (simp add: countGreater_def split: option.splits)

lemma countGreater_dom: "countGreater d a b \<Longrightarrow> a \<in> dom (map_of d)"
  by (auto simp: countGreater_def split: option.splits)

lemma pickPrimaryLanguage_last_max:
  assumes ne: "ks \<noteq> []" and dom: "dom (map_of d) = set ks"
  shows "\<exists>pre post. ks = pre @ pickPrimaryLanguage d ks # post
           \<and> (\<forall>x\<in>set pre. the (map_of d x) \<le> the (map_of d (pickPrimaryLanguage d ks)))
           \<and> (\<forall>x\<in>set post. the (map_of d x) < the (map_of d (pickPrimaryLanguage d ks)))"
proof -
  define a0 where "a0 = (case ks of [] \<Rightarrow> ''unknown'' | l # _ \<Rightarrow> if l = [] then ''unknown'' else l)"
  have sub: "set ks \<subseteq> dom (map_of d)" using dom by simp
  from pick_step [OF sub, of a0] obtain r
    where r: "foldl (\<lambda>a b. if countGreater d a b then a else b) a0 ks = r"
      and alt: "(r = a0 \<and> (\<forall>x\<in>set ks. countGreater d a0 x))
          \<or> (\<exists>pre post. ks = pre @ r # post
                \<and> (\<forall>x\<in>set pre. the (map_of d x) \<le> the (map_of d r))
                \<and> (\<forall>x\<in>set post. the (map_of d x) < the (map_of d r)))"
    by blast
  have pr: "pickPrimaryLanguage d ks = r"
    using r by (simp add: pickPrimaryLanguage_def a0_def)
  have "\<not> (\<forall>x\<in>set ks. countGreater d a0 x)"
  proof
    assume all: "\<forall>x\<in>set ks. countGreater d a0 x"
    obtain k where k: "k \<in> set ks" using ne by (cases ks) auto
    then have "countGreater d a0 k" using all by blast
    then have "a0 \<in> set ks" using countGreater_dom dom by blast
    then have "countGreater d a0 a0" using all by blast
    then show False by (simp add: countGreater_irrefl)
  qed
  then show ?thesis using alt unfolding pr by blast
qed

lemma filesWithLanguage_filter:
  "filesWithLanguage files l = int (length (filter (\<lambda>x. x = l) (map fm_language files)))"
  by (simp add: filesWithLanguage_def filter_map comp_def)

text \<open>
  Claim C4, as stated, fails. With one TypeScript file followed by one Python file the two
  languages are tied and TypeScript is encountered first, yet the primary language is
  Python.
\<close>

theorem primaryLanguage_tie_counterexample:
  "languages (extractBehavioralMetrics tiedFiles 0 0) = [''TypeScript'', ''Python'']
   \<and> filesWithLanguage tiedFiles ''TypeScript'' = 1
   \<and> filesWithLanguage tiedFiles ''Python'' = 1
   \<and> primaryLanguage (extractBehavioralMetrics tiedFiles 0 0) = ''Python''"
  by (simp add: extractBehavioralMetrics_def Let_def tiedFiles_def newFileMetrics_def
      filesWithLanguage_def pickPrimaryLanguage_def countGreater_def)

text \<open>
  Claim C4, amended. For every non-empty list of per-file counters the languages are
  iterated in the order of their first file, the primary language is one of them, no
  language has more files than it, and every language iterated after it has strictly
  fewer files: among the languages tied for the highest file count the one encountered
  last is chosen.
\<close>

theorem primaryLanguage_most_frequent_last:
  assumes "files \<noteq> []"
  shows "(let m = extractBehavioralMetrics files active idle; p = primaryLanguage m in
          languages m = rev (remdups (rev (map fm_language files)))
          \<and> (\<exists>pre post. languages m = pre @ p # post
                \<and> (\<forall>l\<in>set pre. filesWithLanguage files l \<le> filesWithLanguage files p)
                \<and> (\<forall>l\<in>set post. filesWithLanguage files l < filesWithLanguage files p)))"
proof -
  define ls where "ls = map fm_language files"
  define d where "d = foldl countLanguage [] ls"
  define ks where "ks = map fst d"
  have ks: "ks = rev (remdups (rev ls))"
    by (simp add: ks_def d_def keys_foldl_countLanguage)
  have setks: "set ks = set ls" by (simp add: ks)
  have ne: "ks \<noteq> []" using assms setks by (cases files) (auto simp: ls_def)
  have cnt: "\<And>l. l \<in> set ks \<Longrightarrow> the (map_of d l) = filesWithLanguage files l"
    by (simp add: d_def map_of_foldl_countLanguage setks filesWithLanguage_filter ls_def)
  have dom: "dom (map_of d) = set ks"
    by (auto simp: d_def map_of_foldl_countLanguage setks dom_def split: if_splits)
  from pickPrimaryLanguage_last_max [OF ne dom] obtain pre post
    where dec: "ks = pre @ pickPrimaryLanguage d ks # post"
      and lo: "\<forall>x\<in>set pre. the (map_of d x) \<le> the (map_of d (pickPrimaryLanguage d ks))"
      and hi: "\<forall>x\<in>set post. the (map_of d x) < the (map_of d (pickPrimaryLanguage d ks))"
    by blast
  define p where "p = pickPrimaryLanguage d ks"
  have dec': "ks = pre @ p # post" using dec by (simp add: p_def)
  have pin: "p \<in> set ks" by (subst dec') simp
  have prein: "set pre \<subseteq> set ks" by (subst dec') auto
  have postin: "set post \<subseteq> set ks" by (subst dec') auto
  have lo': "\<forall>l\<in>set pre. filesWithLanguage files l \<le> filesWithLanguage files p"
    using lo prein cnt pin unfolding p_def [symmetric] by (metis subsetD)
  have hi': "\<forall>l\<in>set post. filesWithLanguage files l < filesWithLanguage files p"
    using hi postin cnt pin unfolding p_def [symmetric] by (metis subsetD)
  have m1: "languages (extractBehavioralMetrics files active idle) = ks"
    by (simp add: extractBehavioralMetrics_def Let_def ks_def d_def ls_def)
  have m2: "primaryLanguage (extractBehavioralMetrics files active idle) = p"
    by (simp add: extractBehavioralMetrics_def Let_def ks_def d_def ls_def p_def)
  show ?thesis
    unfolding Let_def m1 m2 using ks dec' lo' hi' ls_def by blast
qed

theorem primaryLanguage_most_frequent_last_witness:
  "tiedFiles \<noteq> []
   \<and> (\<exists>pre post. [''TypeScript'', ''Python''] = pre @ ''Python'' # post
         \<and> (\<forall>l\<in>set pre. filesWithLanguage tiedFiles l \<le> filesWithLanguage tiedFiles ''Python'')
         \<and> (\<forall>l\<in>set post. filesWithLanguage tiedFiles l < filesWithLanguage tiedFiles ''Python''))"
proof -
  have ne: "tiedFiles \<noteq> []" by (simp add: tiedFiles_def)
  have l: "languages (extractBehavioralMetrics tiedFiles 0 0) = [''TypeScript'', ''Python'']"
    and p: "primaryLanguage (extractBehavioralMetrics tiedFiles 0 0) = ''Python''"
    by (simp_all add: extractBehavioralMetrics_def Let_def tiedFiles_def newFileMetrics_def
        pickPrimaryLanguage_def countGreater_def)
  from primaryLanguage_most_frequent_last [OF ne, of 0 0] show ?thesis
    unfolding Let_def l p using ne by blast
qed

lemma sum_list_map_nonneg: "\<forall>x\<in>set xs. (0::int) \<le> f x \<Longrightarrow> 0 \<le> sum_list (map f xs)"
  by (induction xs) auto

text \<open>
  The metrics that \<open>extractBehavioralMetrics\<close> derives from counters and times that
  are not negative have ratios that are ratios.
\<close>

lemma extract_metrics_ranges:
  assumes files: "\<forall>f\<in>set files. 0 \<le> fm_keystrokeCount f \<and> 0 \<le> fm_pasteCount f
            \<and> 0 \<le> fm_linesAdded f \<and> 0 \<le> fm_linesDeleted f \<and> 0 \<le> fm_editCount f"
      and times: "0 \<le> active" "0 \<le> idle"
  shows "(let m = extractBehavioralMetrics files active idle in
          0 \<le> typingToTotalRatio m \<and> typingToTotalRatio m \<le> 1
          \<and> 0 \<le> focusRatio m \<and> focusRatio m \<le> 1
          \<and> 0 \<le> backspaceRatio m \<and> 0 \<le> editCount m)"
proof -
  have k: "0 \<le> sum_list (map fm_keystrokeCount files)" using files by (intro sum_list_map_nonneg) blast
  have p: "0 \<le> sum_list (map fm_pasteCount files)" using files by (intro sum_list_map_nonneg) blast
  have a: "0 \<le> sum_list (map fm_linesAdded files)" using files by (intro sum_list_map_nonneg) blast
  have d: "0 \<le> sum_list (map fm_linesDeleted files)" using files by (intro sum_list_map_nonneg) blast
  have e: "0 \<le> sum_list (map fm_editCount files)" using files by (intro sum_list_map_nonneg) blast
  show ?thesis
    unfolding extractBehavioralMetrics_def Let_def
    using k p a d e times by (simp add: divide_le_eq)
qed


text \<open>
  So every category score of an analysis of counters and times that are not negative lies
  in [0,100].
\<close>

lemma analyzeSkill_scores_in_range:
  assumes "\<forall>f\<in>set files. 0 \<le> fm_keystrokeCount f \<and> 0 \<le> fm_pasteCount f
            \<and> 0 \<le> fm_linesAdded f \<and> 0 \<le> fm_linesDeleted f \<and> 0 \<le> fm_editCount f"
      and "0 \<le> active" "0 \<le> idle"
  shows "\<forall>s\<in>set (categoryScores (fst (analyzeSkill files active idle))).
           0 \<le> score s \<and> score s \<le> 100"
proof -
  let ?m = "extractBehavioralMetrics files active idle"
  from extract_metrics_ranges [OF assms]
  have "0 \<le> typingToTotalRatio ?m" "typingToTotalRatio ?m \<le> 1"
    "0 \<le> focusRatio ?m" "focusRatio ?m \<le> 1" "0 \<le> backspaceRatio ?m" "0 \<le> editCount ?m"
    unfolding Let_def by simp_all
  from scores_in_range [OF this] show ?thesis
    by (simp add: analyzeSkill_def Let_def buildSkillProfile_def)
qed

section \<open>Properties of the recommendations\<close>

lemma recommend_cases:
  "recommend m s i = [] \<or> (\<exists>r. recommend m s i = [r] \<and> rec_category r = category s
      \<and> priority r = priorityAt i \<and> score s < 70)"
  by (cases "category s") (simp_all add: recommend_def priorityAt_def Let_def)

lemma recommend_Nil_iff:
  "recommend m s i = [] \<longleftrightarrow>
     \<not> (score s < 70 \<and> (category s = CODING_PROFICIENCY \<longrightarrow> typingToTotalRatio m < 0.5))"
  by (cases "category s") (simp_all add: recommend_def Let_def)

lemma forEach_member:
  "r \<in> set (forEachRecommend m i ss) \<Longrightarrow> \<exists>s\<in>set ss. category s = rec_category r \<and> score s < 70"
proof (induction ss arbitrary: i)
  case Nil
  then show ?case by simp
next
  case (Cons s ss)
  from recommend_cases [of m s i] Cons show ?case by auto
qed

lemma forEach_length: "length (forEachRecommend m i ss) \<le> length ss"
proof (induction ss arbitrary: i)
  case Nil
  show ?case by simp
next
  case (Cons s ss)
  from recommend_cases [of m s i] Cons [of "Suc i"] show ?case by auto
qed

lemma forEach_subseq:
  "subseq (map priority (forEachRecommend m i ss)) (map priorityAt [i..<i + length ss])"
proof (induction ss arbitrary: i)
  case Nil
  show ?case by simp
next
  case (Cons s ss)
  have up: "[i..<i + length (s # ss)] = i # [Suc i..<Suc i + length ss]"
    using upt_conv_Cons [of i "i + length (s # ss)"] by simp
  from recommend_cases [of m s i] Cons [of "Suc i"] show ?case
    unfolding up by auto
qed

lemma forEach_no_high: "0 < i \<Longrightarrow> r \<in> set (forEachRecommend m i ss) \<Longrightarrow> priority r \<noteq> High"
proof (induction ss arbitrary: i)
  case Nil
  then show ?case by simp
next
  case (Cons s ss)
  from recommend_cases [of m s i] Cons.prems Cons.IH [of "Suc i"] show ?case
    by (auto simp: priorityAt_def split: if_splits)
qed

lemma forEach_high_filter:
  "filter (\<lambda>r. priority r = High) (forEachRecommend m 0 (s # ss)) = recommend m s 0"
proof -
  have "filter (\<lambda>r. priority r = High) (forEachRecommend m (Suc 0) ss) = []"
    using forEach_no_high [of "Suc 0" _ m ss] by (auto simp: filter_empty_conv)
  moreover have "filter (\<lambda>r. priority r = High) (recommend m s 0) = recommend m s 0"
    using recommend_cases [of m s 0] by (auto simp: priorityAt_def)
  ultimately show ?thesis by simp
qed

lemma distinct_categories: "distinct (map category (calculateCategoryScores m))"
  by (simp add: calculateCategoryScores_def mkScore_def Let_def)

lemma hd_sort_key_least: "xs \<noteq> [] \<Longrightarrow> \<forall>x\<in>set xs. f (hd (sort_key f xs)) \<le> f x"
proof -
  assume ne: "xs \<noteq> []"
  have s: "sorted (map f (sort_key f xs))" by simp
  have ne': "sort_key f xs \<noteq> []" using ne by (metis length_0_conv length_sort)
  then obtain y ys where ys: "sort_key f xs = y # ys" by (cases "sort_key f xs") auto
  have "\<forall>x\<in>set (sort_key f xs). f y \<le> f x" using s unfolding ys by auto
  moreover have "set (sort_key f xs) = set xs" by simp
  moreover have "hd (sort_key f xs) = y" by (simp add: ys)
  ultimately show ?thesis by (simp only:)
qed

lemma forEach_ranked:
  "map (\<lambda>r. (rec_category r, priority r)) (forEachRecommend m i ss) =
     map (\<lambda>(j, s). (category s, priorityAt j))
       (filter (\<lambda>(j, s). score s < 70
                  \<and> (category s = CODING_PROFICIENCY \<longrightarrow> typingToTotalRatio m < 0.5))
          (enumerate i ss))"
proof (induction ss arbitrary: i)
  case Nil
  show ?case by simp
next
  case (Cons s ss)
  from recommend_cases [of m s i] recommend_Nil_iff [of m s i] Cons [of "Suc i"]
  show ?case by auto
qed

lemma prio5: "map priorityAt [0..<5] = [High, Medium, Low, Low, Low]"
  by (simp add: upt_rec priorityAt_def)

text \<open>
  Claim C5, amended. For every behavioural metrics record: no recommendation is emitted
  for a category scoring 70 or more; at most 5 recommendations are produced. The five
  scores are ranked by the stable ascending sort by score, and the recommendations are, in
  this order, those of the ranked categories that score below 70 and are not the
  coding-proficiency category with a typing ratio of 0.5 or more; the priority of a
  recommendation is fixed by the rank of its category: high for the lowest-ranked
  category (rank 0), medium for the second (rank 1), low for the others. A rank whose
  category gets no recommendation leaves its priority unused, so the priorities, in
  output order, are a subsequence of high, medium, low, low, low. Only the lowest-ranked
  category can get priority high, so there is at most one high-priority recommendation,
  and there is exactly one if and only if the lowest-ranked category scores below 70 and
  is not the coding-proficiency category with a typing ratio of 0.5 or more.
\<close>

theorem recommendations_ranked:
  "(let cs = calculateCategoryScores m;
        rs = generateRecommendations cs m;
        ranked = sort_key score cs;
        lowest = hd ranked
    in (\<forall>r\<in>set rs. \<forall>s\<in>set cs. category s = rec_category r \<longrightarrow> score s < 70)
       \<and> length rs \<le> 5
       \<and> length ranked = 5
       \<and> map (\<lambda>r. (rec_category r, priority r)) rs =
           map (\<lambda>(i, s). (category s, priorityAt i))
             (filter (\<lambda>(i, s). score s < 70
                        \<and> (category s = CODING_PROFICIENCY \<longrightarrow> typingToTotalRatio m < 0.5))
                (enumerate 0 ranked))
       \<and> subseq (map priority rs) [High, Medium, Low, Low, Low]
       \<and> lowest \<in> set cs \<and> (\<forall>s\<in>set cs. score lowest \<le> score s)
       \<and> (\<forall>r\<in>set rs. priority r = High \<longrightarrow> rec_category r = category lowest)
       \<and> length (filter (\<lambda>r. priority r = High) rs) =
           (if score lowest < 70 \<and> (category lowest = CODING_PROFICIENCY \<longrightarrow> typingToTotalRatio m < 0.5)
            then 1 else 0))"
proof -
  define cs where "cs = calculateCategoryScores m"
  define sorted where "sorted = sort_key score cs"
  define rs where "rs = generateRecommendations cs m"
  have rs: "rs = forEachRecommend m 0 sorted"
    by (simp add: rs_def generateRecommendations_def sorted_def)
  have len: "length sorted = 5" by (simp add: sorted_def cs_def length_calculate)
  have setS: "set sorted = set cs" by (simp add: sorted_def)
  have ne: "cs \<noteq> []" using length_calculate [of m] by (auto simp: cs_def)
  obtain s0 ss where sorted_eq: "sorted = s0 # ss" using len by (cases sorted) auto
  have hd: "hd sorted = s0" by (simp add: sorted_eq)
  have a: "\<forall>r\<in>set rs. \<forall>s\<in>set cs. category s = rec_category r \<longrightarrow> score s < 70"
  proof (intro ballI impI)
    fix r s assume r: "r \<in> set rs" and s: "s \<in> set cs" and c: "category s = rec_category r"
    from forEach_member [OF r [unfolded rs]] obtain s' where s': "s' \<in> set cs"
      "category s' = rec_category r" "score s' < 70" using setS by blast
    have "inj_on category (set cs)"
      using distinct_categories [of m] by (simp add: cs_def distinct_map)
    moreover have "category s' = category s" using s' c by simp
    ultimately have "s' = s" using s'(1) s by (rule inj_onD)
    then show "score s < 70" using s' by simp
  qed
  have b: "length rs \<le> 5" using forEach_length [of m 0 sorted] len by (simp add: rs)
  have rk: "map (\<lambda>r. (rec_category r, priority r)) rs =
           map (\<lambda>(i, s). (category s, priorityAt i))
             (filter (\<lambda>(i, s). score s < 70
                        \<and> (category s = CODING_PROFICIENCY \<longrightarrow> typingToTotalRatio m < 0.5))
                (enumerate 0 sorted))"
    unfolding rs by (rule forEach_ranked)
  have c: "subseq (map priority rs) [High, Medium, Low, Low, Low]"
    using forEach_subseq [of m 0 sorted] by (simp add: rs len prio5)
  have d1: "s0 \<in> set cs" using setS sorted_eq by auto
  have d2: "\<forall>s\<in>set cs. score s0 \<le> score s"
    using hd_sort_key_least [OF ne, of score] hd by (simp add: sorted_def)
  have hf: "filter (\<lambda>r. priority r = High) rs = recommend m s0 0"
    by (simp only: rs sorted_eq forEach_high_filter)
  have e: "\<forall>r\<in>set rs. priority r = High \<longrightarrow> rec_category r = category s0"
  proof (intro ballI impI)
    fix r assume "r \<in> set rs" "priority r = High"
    then have "r \<in> set (filter (\<lambda>r. priority r = High) rs)" by simp
    then have "r \<in> set (recommend m s0 0)" by (simp only: hf)
    then show "rec_category r = category s0" using recommend_cases [of m s0 0] by auto
  qed
  have f: "length (filter (\<lambda>r. priority r = High) rs) =
           (if score s0 < 70 \<and> (category s0 = CODING_PROFICIENCY \<longrightarrow> typingToTotalRatio m < 0.5)
            then 1 else 0)"
    unfolding hf using recommend_cases [of m s0 0] recommend_Nil_iff [of m s0 0] by auto
  show ?thesis
    unfolding Let_def cs_def [symmetric] rs_def [symmetric] sorted_def [symmetric] hd
    using a b len rk c d1 d2 e f by (intro conjI) 
qed


lemma fiveLanguage_metrics:
  "extractBehavioralMetrics fiveLanguageFiles 600000 0 =
     \<lparr> typingToTotalRatio = 3 / 5, averageTypingSpeed = 3 / 10, keystrokeCount = 3, pasteCount = 2,
       editCount = 3, linesAdded = 0, linesDeleted = 0, backspaceRatio = 0,
       activeTimeMs = 600000, idleTimeMs = 0, focusRatio = 1,
       languages = [''TypeScript'', ''Python'', ''Go'', ''Rust'', ''Ruby''],
       primaryLanguage = ''Ruby'',
       languageDistribution = [(''TypeScript'', 20), (''Python'', 20), (''Go'', 20),
                               (''Rust'', 20), (''Ruby'', 20)],
       fileCount = 5, averageFileActiveTime = 0, fileSwitchCount = 0 \<rparr>"
  by (simp add: extractBehavioralMetrics_def Let_def fiveLanguageFiles_def newFileMetrics_def
      pickPrimaryLanguage_def countGreater_def)

lemma fiveLanguage_scores:
  "calculateCategoryScores (extractBehavioralMetrics fiveLanguageFiles 600000 0) =
     [mkScore CODING_PROFICIENCY 60, mkScore PROBLEM_SOLVING 97, mkScore FOCUS_CONSISTENCY 100,
      mkScore CODE_QUALITY 100, mkScore LANGUAGE_VERSATILITY 100]"
  by (simp only: fiveLanguage_metrics) (simp add: calculateCategoryScores_def Let_def Math_round_def)

text \<open>
  Claim C5, as stated, fails. For \<open>fiveLanguageFiles\<close> with ten minutes of active time the
  coding-proficiency score is 60, below 70 and the lowest of the five, but the typing ratio
  is 0.6, so its recommendation is not emitted: there is no recommendation at all, and none
  of priority high.
\<close>

theorem no_high_counterexample:
  "map score (calculateCategoryScores (extractBehavioralMetrics fiveLanguageFiles 600000 0))
     = [60, 97, 100, 100, 100]
   \<and> generateRecommendations (calculateCategoryScores (extractBehavioralMetrics fiveLanguageFiles 600000 0))
        (extractBehavioralMetrics fiveLanguageFiles 600000 0) = []"
  by (simp only: fiveLanguage_scores generateRecommendations_def)
     (simp add: fiveLanguage_metrics mkScore_def recommend_def)

lemma sample_calc:
  "calculateCategoryScores sampleMetrics =
     [mkScore CODING_PROFICIENCY 60, mkScore PROBLEM_SOLVING 60, mkScore FOCUS_CONSISTENCY 50,
      mkScore CODE_QUALITY 50, mkScore LANGUAGE_VERSATILITY 20]"
  by (simp add: calculateCategoryScores_def Let_def Math_round_def sampleMetrics_def)

theorem recommendations_ranked_witness:
  "map (\<lambda>r. (rec_category r, priority r))
       (generateRecommendations (calculateCategoryScores sampleMetrics) sampleMetrics)
     = [(LANGUAGE_VERSATILITY, High), (FOCUS_CONSISTENCY, Medium), (CODE_QUALITY, Low),
        (PROBLEM_SOLVING, Low)]
   \<and> length (filter (\<lambda>r. priority r = High)
        (generateRecommendations (calculateCategoryScores sampleMetrics) sampleMetrics)) = 1
   \<and> subseq (map priority (generateRecommendations (calculateCategoryScores sampleMetrics) sampleMetrics))
        [High, Medium, Low, Low, Low]"
proof -
  have srt: "sort_key score (calculateCategoryScores sampleMetrics) =
     [mkScore LANGUAGE_VERSATILITY 20, mkScore FOCUS_CONSISTENCY 50, mkScore CODE_QUALITY 50,
      mkScore CODING_PROFICIENCY 60, mkScore PROBLEM_SOLVING 60]"
    by (simp add: sample_calc mkScore_def)
  have t: "\<not> typingToTotalRatio sampleMetrics * 2 < 1"
    by (simp add: sampleMetrics_def)
  from recommendations_ranked [of sampleMetrics] show ?thesis
    unfolding Let_def srt by (simp add: mkScore_def priorityAt_def t)
qed


text \<open>
  A rank without a recommendation: for \<open>skippedRankMetrics\<close> the coding proficiency is
  second-lowest with a score of 55, but the typing ratio is 0.55, so rank 1 gives no
  recommendation and no recommendation has priority medium; the focus score is third and
  gets priority low.
\<close>

lemma skipped_rank_example:
  "map score (calculateCategoryScores skippedRankMetrics) = [55, 100, 60, 100, 20]
   \<and> map (\<lambda>r. (rec_category r, priority r))
        (generateRecommendations (calculateCategoryScores skippedRankMetrics) skippedRankMetrics)
      = [(LANGUAGE_VERSATILITY, High), (FOCUS_CONSISTENCY, Low)]"
proof -
  have c: "calculateCategoryScores skippedRankMetrics =
     [mkScore CODING_PROFICIENCY 55, mkScore PROBLEM_SOLVING 100, mkScore FOCUS_CONSISTENCY 60,
      mkScore CODE_QUALITY 100, mkScore LANGUAGE_VERSATILITY 20]"
    by (simp add: calculateCategoryScores_def Let_def Math_round_def skippedRankMetrics_def
        sampleMetrics_def)
  have srt: "sort_key score (calculateCategoryScores skippedRankMetrics) =
     [mkScore LANGUAGE_VERSATILITY 20, mkScore CODING_PROFICIENCY 55, mkScore FOCUS_CONSISTENCY 60,
      mkScore PROBLEM_SOLVING 100, mkScore CODE_QUALITY 100]"
    by (simp add: c mkScore_def)
  have v: "map (\<lambda>r. (rec_category r, priority r))
        (generateRecommendations (calculateCategoryScores skippedRankMetrics) skippedRankMetrics)
      = [(LANGUAGE_VERSATILITY, High), (FOCUS_CONSISTENCY, Low)]"
    by (simp only: generateRecommendations_def srt)
       (simp add: mkScore_def recommend_def skippedRankMetrics_def sampleMetrics_def)
  show ?thesis using v by (simp add: c mkScore_def)
qed


section \<open>Properties of the line classification\<close>

lemma basicLoop_counts:
  "basicLoop ps (b, c, i) ls = (b', c', i') \<Longrightarrow>
     b \<le> b' \<and> c \<le> c' \<and> (b' - b) + (c' - c) \<le> int (length ls)"
proof (induction ls arbitrary: b c i)
  case Nil
  then show ?case by simp
next
  case (Cons l ls)
  show ?case
    using Cons.prems
    by (auto simp: Let_def split: if_splits dest!: Cons.IH)
qed

text \<open>
  Claim C6. For every input text and every language key, the line counts of feature
  extraction satisfy codeLines + commentLines + blankLines = totalLines. The code line
  count is never negative, and it is the plain difference totalLines - blankLines -
  commentLines: every line is counted at most once as blank or comment, so the clamp at 0
  is never the binding constraint.
\<close>

theorem line_counts_partition:
  "(let m = extractBasicMetrics (split CHR 0x0A code) langKey in
      codeLines m + commentLines m + blankLines m = totalLines m
      \<and> 0 \<le> codeLines m
      \<and> codeLines m = totalLines m - blankLines m - commentLines m
      \<and> 0 \<le> commentLines m \<and> 0 \<le> blankLines m
      \<and> totalLines m = int (length (split CHR 0x0A code)))"
proof -
  obtain b c i where r: "basicLoop (lookupOrDefault COMMENT_PATTERNS langKey) (0, 0, False)
      (split CHR 0x0A code) = (b, c, i)"
    by (metis prod_cases3)
  from basicLoop_counts [OF r] show ?thesis
    by (simp add: extractBasicMetrics_def Let_def r)
qed

lemma line_counts_example:
  "extractBasicMetrics (split CHR 0x0A ''/* a\<newline>b */\<newline>\<newline>x = 1 // c\<newline>// d'') ''default''
     = \<lparr> totalLines = 5, codeLines = 1, commentLines = 3, blankLines = 1 \<rparr>"
  by (simp add: extractBasicMetrics_def Let_def lookupOrDefault_def COMMENT_PATTERNS_def
      lineStart_def lit_def trim_def isWhiteSpace_def test_def removeFirst_def step1_def)

theorem line_counts_partition_witness:
  "extractBasicMetrics (split CHR 0x0A ''/* a\<newline>b */\<newline>\<newline>x = 1 // c\<newline>// d'') ''default''
     = \<lparr> totalLines = 5, codeLines = 1, commentLines = 3, blankLines = 1 \<rparr>
   \<and> (1::int) + 3 + 1 = 5"
  using line_counts_partition [of "''/* a\<newline>b */\<newline>\<newline>x = 1 // c\<newline>// d''" "''default''"]
  unfolding line_counts_example Let_def by simp

section \<open>Properties of edit tracking\<close>

lemma map_of_updateMetrics:
  "map_of (updateMetrics f h ms) g = (if g = f then map_option h (map_of ms g) else map_of ms g)"
  by (induction ms) (auto simp: updateMetrics_def)

lemma pastesCounted_alt:
  "pastesCounted svc g =
     (case map_option fm_pasteCount (map_of (fileMetrics svc) g) of None \<Rightarrow> 0 | Some n \<Rightarrow> n)"
  by (simp add: pastesCounted_def split: option.splits)

lemma pasteCount_updateMetrics:
  "map_option fm_pasteCount (map_of (updateMetrics f h ms) g) =
     (if g = f then map_option (\<lambda>v. fm_pasteCount (h v)) (map_of ms g)
      else map_option fm_pasteCount (map_of ms g))"
  by (simp add: map_of_updateMetrics option.map_comp comp_def)

lemma pasteCount_ensure:
  "map_option fm_pasteCount (map_of (fileMetrics (ensureFileMetrics f lang clk svc)) g) =
     (if g = f \<and> map_of (fileMetrics svc) f = None then Some 0
      else map_option fm_pasteCount (map_of (fileMetrics svc) g))"
  by (auto simp: ensureFileMetrics_def newFileMetrics_def map_add_def split: option.splits)

lemma ensure_defined: "map_of (fileMetrics (ensureFileMetrics f lang clk svc)) f \<noteq> None"
  by (auto simp: ensureFileMetrics_def map_add_def split: option.splits)

lemma fileMetrics_recordEvent: "fileMetrics (recordEvent t ty d svc) = fileMetrics svc"
  by (simp add: recordEvent_def)

lemma fileMetrics_markActivity: "fileMetrics (markActivity clk svc) = fileMetrics svc"
  by (simp add: markActivity_def Let_def fileMetrics_recordEvent)

lemma pasteCount_activeTime:
  "map_option fm_pasteCount (map_of (fileMetrics (updateFileActiveTime f t svc)) g) =
     map_option fm_pasteCount (map_of (fileMetrics svc) g)"
  by (cases "map_of (fileMetrics svc) f")
     (simp_all add: updateFileActiveTime_def Let_def pasteCount_updateMetrics)

lemma session_ensure: "session (ensureFileMetrics f lang clk svc) = None \<longleftrightarrow> session svc = None"
  by (auto simp: ensureFileMetrics_def split: option.splits)

lemma totalPastes_ensure:
  "map_option totalPastes (session (ensureFileMetrics f lang clk svc)) =
     map_option totalPastes (session svc)"
  by (auto simp: ensureFileMetrics_def option.map_comp comp_def split: option.splits)

lemma session_recordEvent: "session (recordEvent t ty d svc) = session svc"
  by (simp add: recordEvent_def)

lemma session_markActivity: "session (markActivity clk svc) = session svc"
  by (simp add: markActivity_def Let_def session_recordEvent)

lemma session_activeTime: "session (updateFileActiveTime f t svc) = session svc"
  by (auto simp: updateFileActiveTime_def Let_def split: option.splits)

lemma detectPaste_none_added: "\<not> detectPaste 0 g l"
  by (simp add: detectPaste_def)


text \<open>The effect of a handled change on the pastes counted for a file.\<close>

lemma handleTextChange_pastes:
  assumes "session svc \<noteq> None"
  shows "\<exists>svc'. handleTextChange svc e clk = Inr svc'
           \<and> (\<forall>g. pastesCounted svc' g =
                 pastesCounted svc g
                 + (if shouldTrackDocument (document e) \<and> classifyChange svc e clk
                       \<and> g = uri_fsPath (document e) then 1 else 0))
           \<and> map_option totalPastes (session svc') =
               map_option
                 (\<lambda>n. n + (if shouldTrackDocument (document e) \<and> classifyChange svc e clk
                              then 1 else 0))
                 (map_option totalPastes (session svc))"
proof -
  obtain added deleted newLs delLs
    where loop: "changeLoop (0, 0, 0, 0) (contentChanges e) = (added, deleted, newLs, delLs)"
    by (metis prod_cases4)
  obtain s where s: "session svc = Some s" using assms by auto
  define f where "f = uri_fsPath (document e)"
  define lang where "lang = detectLanguage f"
  define svc1 where "svc1 = ensureFileMetrics f lang clk svc"
  obtain s1 where s1: "session svc1 = Some s1"
    using session_ensure [of f lang clk svc] s by (auto simp: svc1_def)
  obtain m1 where m1: "map_of (fileMetrics svc1) f = Some m1"
    using ensure_defined [of f lang clk svc] by (auto simp: svc1_def)
  have pc1: "\<And>g. map_option fm_pasteCount (map_of (fileMetrics svc1) g) =
     (if g = f \<and> map_of (fileMetrics svc) f = None then Some 0
      else map_option fm_pasteCount (map_of (fileMetrics svc) g))"
    by (simp only: svc1_def pasteCount_ensure)
  have t1: "totalPastes s1 = totalPastes s"
    using totalPastes_ensure [of f lang clk svc] s s1 by (simp add: svc1_def)
  have k: "fm_pasteCount m1 =
      (case map_option fm_pasteCount (map_of (fileMetrics svc) f) of None \<Rightarrow> 0 | Some n \<Rightarrow> n)"
    using pc1 [of f] m1 by (auto split: option.splits if_splits)
  show ?thesis
  proof (cases "shouldTrackDocument (document e)")
    case False
    then show ?thesis by (simp add: handleTextChange_def s)
  next
    case track: True
    show ?thesis
    proof (cases "added = 0 \<and> deleted = 0")
      case True
      then have "\<not> classifyChange svc e clk"
        by (simp add: classifyChange_def loop detectPaste_none_added)
      then show ?thesis using True track by (simp add: handleTextChange_def loop Let_def s)
    next
      case False
      show ?thesis
      proof (cases "classifyChange svc e clk")
        case True
        show ?thesis
          using track False True s1 m1 k t1 s
          by (simp add: handleTextChange_def loop Let_def f_def [symmetric] lang_def [symmetric]
              svc1_def [symmetric] withSession_def session_recordEvent pastesCounted_alt
              session_markActivity session_activeTime
              fileMetrics_markActivity pasteCount_activeTime fileMetrics_recordEvent
              pasteCount_updateMetrics pc1 del: case_map_option)
      next
        case nopaste: False
        show ?thesis
          using track False nopaste s1 m1 k t1 s
          by (simp add: handleTextChange_def loop Let_def f_def [symmetric] lang_def [symmetric]
              svc1_def [symmetric] withSession_def session_recordEvent pastesCounted_alt
              session_markActivity session_activeTime
              fileMetrics_markActivity pasteCount_activeTime fileMetrics_recordEvent
              pasteCount_updateMetrics pc1 del: case_map_option)
      qed
    qed
  qed
qed


text \<open>
  Claim C10. Paste classification is independent of deletions. For a running tracker and
  two change events on the same document that agree on the characters added and the lines
  added, handled at the same time after the same previous change (so with the same gap),
  whatever the characters and lines they delete: the classifier returns the same result,
  both events are handled without an exception, and afterwards every file has the same
  number of counted pastes and the session has the same paste total.
\<close>

theorem paste_count_independent_of_deletions:
  assumes "session svc \<noteq> None"
      and "document e1 = document e2"
      and "changeLoop (0, 0, 0, 0) (contentChanges e1) = (added, deleted1, newLs, delLs1)"
      and "changeLoop (0, 0, 0, 0) (contentChanges e2) = (added, deleted2, newLs, delLs2)"
  shows "classifyChange svc e1 clk = classifyChange svc e2 clk
         \<and> (\<exists>svc1 svc2.
               handleTextChange svc e1 clk = Inr svc1 \<and> handleTextChange svc e2 clk = Inr svc2
               \<and> (\<forall>g. pastesCounted svc1 g = pastesCounted svc2 g)
               \<and> map_option totalPastes (session svc1) = map_option totalPastes (session svc2))"
proof -
  have c: "classifyChange svc e1 clk = classifyChange svc e2 clk"
    by (simp add: classifyChange_def assms(3,4))
  from handleTextChange_pastes [OF assms(1), of e1 clk] obtain svc1
    where r1: "handleTextChange svc e1 clk = Inr svc1"
      and p1: "\<forall>g. pastesCounted svc1 g =
                 pastesCounted svc g
                 + (if shouldTrackDocument (document e1) \<and> classifyChange svc e1 clk
                       \<and> g = uri_fsPath (document e1) then 1 else 0)"
      and t1: "map_option totalPastes (session svc1) =
               map_option
                 (\<lambda>n. n + (if shouldTrackDocument (document e1) \<and> classifyChange svc e1 clk
                              then 1 else 0))
                 (map_option totalPastes (session svc))"
    by blast
  from handleTextChange_pastes [OF assms(1), of e2 clk] obtain svc2
    where r2: "handleTextChange svc e2 clk = Inr svc2"
      and p2: "\<forall>g. pastesCounted svc2 g =
                 pastesCounted svc g
                 + (if shouldTrackDocument (document e2) \<and> classifyChange svc e2 clk
                       \<and> g = uri_fsPath (document e2) then 1 else 0)"
      and t2: "map_option totalPastes (session svc2) =
               map_option
                 (\<lambda>n. n + (if shouldTrackDocument (document e2) \<and> classifyChange svc e2 clk
                              then 1 else 0))
                 (map_option totalPastes (session svc))"
    by blast
  have "\<forall>g. pastesCounted svc1 g = pastesCounted svc2 g"
    using p1 p2 c assms(2) by simp
  moreover have "map_option totalPastes (session svc1) = map_option totalPastes (session svc2)"
    using t1 t2 c assms(2) by simp
  ultimately show ?thesis using c r1 r2 by blast
qed

lemma no_newline_in_xs: "matchAll False (Chr CHR 0x0A) 0 p (replicate n CHR ''x'') = []"
  by (induction n arbitrary: p) (simp_all add: step1_def)

theorem paste_count_independent_of_deletions_witness:
  "session sampleService \<noteq> None
   \<and> document insertOnly = document insertReplacing
   \<and> changeLoop (0, 0, 0, 0) (contentChanges insertOnly) = (60, 0, 0, 0)
   \<and> changeLoop (0, 0, 0, 0) (contentChanges insertReplacing) = (60, 17, 0, 6)
   \<and> classifyChange sampleService insertOnly sampleClock
   \<and> classifyChange sampleService insertReplacing sampleClock
   \<and> (\<exists>svc1 svc2.
         handleTextChange sampleService insertOnly sampleClock = Inr svc1
         \<and> handleTextChange sampleService insertReplacing sampleClock = Inr svc2
         \<and> (\<forall>g. pastesCounted svc1 g = pastesCounted svc2 g)
         \<and> map_option totalPastes (session svc1) = map_option totalPastes (session svc2))"
proof -
  have h1: "session sampleService \<noteq> None" by (simp add: sampleService_def)
  have h2: "document insertOnly = document insertReplacing"
    by (simp add: insertOnly_def insertReplacing_def)
  have h3: "changeLoop (0, 0, 0, 0) (contentChanges insertOnly) = (60, 0, 0, 0)"
    by (simp add: insertOnly_def countMatches_def no_newline_in_xs)
  have h4: "changeLoop (0, 0, 0, 0) (contentChanges insertReplacing) = (60, 17, 0, 6)"
    by (simp add: insertReplacing_def countMatches_def no_newline_in_xs)
  have c: "classifyChange sampleService insertOnly sampleClock"
    by (simp add: classifyChange_def h3 sampleService_def sampleClock_def detectPaste_def)
  from paste_count_independent_of_deletions [OF h1 h2 h3 h4, of sampleClock] c h1 h2 h3 h4
  show ?thesis by simp
qed


section \<open>Properties of the complexity estimate\<close>

lemma keyword_regexps:
  "map keywordRegExp CONTROL_FLOW_KEYWORDS =
     [Some (lit ''if''),
      Some (seqs (WordB # map Chr ''else'' @ [WordB])), Some (seqs (WordB # map Chr ''elif'' @ [WordB])),
      Some (seqs (WordB # map Chr ''for'' @ [WordB])), Some (seqs (WordB # map Chr ''while'' @ [WordB])),
      Some (seqs (WordB # map Chr ''switch'' @ [WordB])), Some (seqs (WordB # map Chr ''case'' @ [WordB])),
      Some (seqs (WordB # map Chr ''try'' @ [WordB])), Some (seqs (WordB # map Chr ''catch'' @ [WordB])),
      Some (seqs (WordB # map Chr ''except'' @ [WordB])), Some (seqs (WordB # map Chr ''finally'' @ [WordB])),
      Some (seqs (WordB # map Chr ''with'' @ [WordB])), Some (seqs (WordB # map Chr ''match'' @ [WordB])),
      Some (lit ''&&''),
      Some (Alt (Chr CHR ''|'') Eps),
      Some (Chr CHR ''?''),
      Some (Opt (Chr CHR ''?''))]"
  by (simp add: CONTROL_FLOW_KEYWORDS_def keywordRegExp_def lit_def)

text \<open>
  Claim C3. The claim says that the complexity is 1 plus the matches of the listed tokens,
  so that a line with none of them contributes 0. The code does not do that. The pattern
  built for \<open>||\<close> is \<open>\||\<close>, an escaped bar or the empty string, and the pattern built
  for \<open>??\<close> is \<open>\??\<close>, an optional question mark; both match at every position of every
  line. The empty text has complexity 3 and the text \<open>x\<close> has complexity 5, where the
  claim gives 1 for both.
\<close>

theorem complexity_counts_empty_matches:
  "keywordRegExp ''||'' = Some (Alt (Chr CHR ''|'') Eps)
   \<and> keywordRegExp ''??'' = Some (Opt (Chr CHR ''?''))
   \<and> extractComplexityMetrics (split CHR 0x0A '''')
       = Inr \<lparr> cyclomaticComplexity = 3, nestingDepth = 0 \<rparr>
   \<and> extractComplexityMetrics (split CHR 0x0A ''x'')
       = Inr \<lparr> cyclomaticComplexity = 5, nestingDepth = 0 \<rparr>"
  by (simp add: extractComplexityMetrics_def CONTROL_FLOW_KEYWORDS_def keywordRegExp_def
      countMatches_def step1_def atWordBoundary_def isWordChar_def inRange_def trim_def
      isWhiteSpace_def matched_def Let_def)


lemma countMatches_nonneg: "0 \<le> countMatches ml r s"
  by (simp add: countMatches_def)

lemma matchAll_pipe_or_empty:
  "length (matchAll ml (Alt (Chr CHR ''|'') Eps) 0 p s) = length s + 1"
  by (induction s arbitrary: p) (simp_all add: step1_def matched_def)

lemma matchAll_optional_question:
  "length (matchAll ml (Opt (Chr CHR ''?'')) 0 p s) = length s + 1"
  by (induction s arbitrary: p) (simp_all add: step1_def matched_def)

lemma keywordLoop_sum:
  "map keywordRegExp ks = map Some rs \<Longrightarrow>
   keywordLoop t c ks = Inr (c + sum_list (map (\<lambda>r. countMatches False r t) rs))"
proof (induction ks arbitrary: c rs)
  case Nil
  then show ?case by simp
next
  case (Cons k ks)
  then obtain r rs' where rs: "rs = r # rs'" "keywordRegExp k = Some r"
    "map keywordRegExp ks = map Some rs'"
    by (cases rs) auto
  show ?case using Cons.IH [OF rs(3)] rs by (simp add: add.assoc)
qed

lemma keywordLoop_control_flow:
  "\<exists>n. keywordLoop t c CONTROL_FLOW_KEYWORDS = Inr (c + n) \<and> 2 * (int (length t) + 1) \<le> n"
proof -
  define front where "front =
     [lit ''if'',
      seqs (WordB # map Chr ''else'' @ [WordB]), seqs (WordB # map Chr ''elif'' @ [WordB]),
      seqs (WordB # map Chr ''for'' @ [WordB]), seqs (WordB # map Chr ''while'' @ [WordB]),
      seqs (WordB # map Chr ''switch'' @ [WordB]), seqs (WordB # map Chr ''case'' @ [WordB]),
      seqs (WordB # map Chr ''try'' @ [WordB]), seqs (WordB # map Chr ''catch'' @ [WordB]),
      seqs (WordB # map Chr ''except'' @ [WordB]), seqs (WordB # map Chr ''finally'' @ [WordB]),
      seqs (WordB # map Chr ''with'' @ [WordB]), seqs (WordB # map Chr ''match'' @ [WordB]),
      lit ''&&'']"
  define rs where "rs = front @ [Alt (Chr CHR ''|'') Eps, Chr CHR ''?'', Opt (Chr CHR ''?'')]"
  have m: "map keywordRegExp CONTROL_FLOW_KEYWORDS = map Some rs"
    by (simp only: keyword_regexps) (simp add: rs_def front_def)
  have two: "countMatches False (Alt (Chr CHR ''|'') Eps) t = int (length t) + 1"
    "countMatches False (Opt (Chr CHR ''?'')) t = int (length t) + 1"
    by (simp_all add: countMatches_def matchAll_pipe_or_empty matchAll_optional_question)
  have f: "0 \<le> sum_list (map (\<lambda>r. countMatches False r t) front)"
    by (rule sum_list_nonneg) (auto simp: countMatches_nonneg)
  have q: "0 \<le> countMatches False (Chr CHR ''?'') t" by (rule countMatches_nonneg)
  have "2 * (int (length t) + 1) \<le> sum_list (map (\<lambda>r. countMatches False r t) rs)"
    using f q by (simp add: rs_def two)
  then show ?thesis using keywordLoop_sum [OF m, of t c] by blast
qed

lemma complexityLoop_lower_bound:
  "\<exists>c' mx' cur'. complexityLoop (c, mx, cur) ls = Inr (c', mx', cur')
      \<and> c + 2 * sum_list (map (\<lambda>l. int (length (trim l)) + 1) ls) \<le> c'"
proof (induction ls arbitrary: c mx cur)
  case Nil
  show ?case by simp
next
  case (Cons l ls)
  obtain n where n: "keywordLoop (trim l) c CONTROL_FLOW_KEYWORDS = Inr (c + n)"
    "2 * (int (length (trim l)) + 1) \<le> n"
    using keywordLoop_control_flow [of "trim l" c] by blast
  define nesting where "nesting = cur + (countMatches False (Chr CHR ''{'') (trim l)
      - countMatches False (Chr CHR ''}'') (trim l))"
  obtain c' mx' cur' where r: "complexityLoop (c + n, max mx nesting, nesting) ls = Inr (c', mx', cur')"
    "c + n + 2 * sum_list (map (\<lambda>l. int (length (trim l)) + 1) ls) \<le> c'"
    using Cons.IH [of "c + n" "max mx nesting" nesting] by blast
  have "complexityLoop (c, mx, cur) (l # ls) = Inr (c', mx', cur')"
    using n(1) r(1) by (simp add: Let_def nesting_def)
  moreover have "c + 2 * sum_list (map (\<lambda>l. int (length (trim l)) + 1) (l # ls)) \<le> c'"
    using n(2) r(2) by simp
  ultimately show ?case by blast
qed

text \<open>
  For every text the complexity computation returns, and every line adds at least twice
  its trimmed length plus two.
\<close>

lemma extractComplexityMetrics_lower_bound:
  "\<exists>m. extractComplexityMetrics ls = Inr m
       \<and> 1 + 2 * sum_list (map (\<lambda>l. int (length (trim l)) + 1) ls) \<le> cyclomaticComplexity m"
proof -
  obtain c' mx' cur' where r: "complexityLoop (1, 0, 0) ls = Inr (c', mx', cur')"
    "1 + 2 * sum_list (map (\<lambda>l. int (length (trim l)) + 1) ls) \<le> c'"
    using complexityLoop_lower_bound [of 1 0 0 ls] by blast
  then show ?thesis by (simp add: extractComplexityMetrics_def)
qed

section \<open>Totality and finiteness of feature extraction\<close>




lemma isFinite_round2: "isFinite (round2 x) = isFinite x"
  by (cases x) (simp_all add: round2_def isFinite_def)

lemma isFinite_js_div: "b \<noteq> 0 \<Longrightarrow> isFinite (js_div a b)"
  by (simp add: js_div_def isFinite_def)

lemma isFinite_Fin: "isFinite (Fin x)"
  by (simp add: isFinite_def)


lemma round2_one: "round2 (Fin 1) = Fin 1"
  by (simp add: round2_def Math_round_def)

lemma length_indentLoop:
  "length (snd (snd (indentLoop st ls))) \<le> length (snd (snd st)) + length ls"
proof (induction ls arbitrary: st)
  case Nil
  show ?case by simp
next
  case (Cons l ls)
  obtain tabs spaces sizes where st: "st = (tabs, spaces, sizes)"
    by (metis prod_cases3)
  show ?case
    using Cons [of "(tabs, spaces, sizes)"] Cons [of "(tabs + 1, spaces, sizes)"]
      Cons [of "(tabs, spaces + 1, sizes @ [int (length (the (matchFirst (seqs [Bol, Plus ws]) l)))])"]
    by (auto simp: st split: option.splits)
qed

lemma Math_max_spread0_within:
  "length xs + 1 \<le> maxArguments \<Longrightarrow> Math_max_spread0 maxArguments xs = Inr (foldl max 0 xs)"
  by (simp add: Math_max_spread0_def)

lemma Math_max_spread0_beyond:
  "maxArguments \<le> length xs \<Longrightarrow> Math_max_spread0 maxArguments xs = Inl RangeError"
  by (simp add: Math_max_spread0_def)

lemma Math_min_spread_within:
  "length xs \<le> maxArguments \<Longrightarrow>
     Math_min_spread maxArguments xs
       = Inr (case xs of [] \<Rightarrow> PosInf | x # ys \<Rightarrow> Fin (foldl min x ys))"
  by (simp add: Math_min_spread_def)

lemma indentSizes_within:
  assumes "length ls + 1 \<le> maxArguments"
    and "indentLoop (0, 0, []) (filter P ls) = (tabs, spaces, sizes)"
  shows "length (filter Q sizes) \<le> maxArguments"
proof -
  have "length (filter Q sizes) \<le> length sizes" by simp
  also have "\<dots> \<le> length (filter P ls)"
    using length_indentLoop [of "(0, 0, [])" "filter P ls"] assms(2) by simp
  also have "\<dots> \<le> length ls" by simp
  finally show ?thesis using assms(1) by simp
qed

lemma structural_total:
  assumes "length ls + 1 \<le> maxArguments"
  shows "\<exists>s. extractStructuralMetrics maxArguments ls = Inr s
       \<and> isFinite (averageLineLength s)
       \<and> isFinite (indentationConsistency s)
       \<and> 1 \<le> indentationSize s \<and> indentationSize s \<le> 8
       \<and> (spaceIndentSizes ls = [] \<longrightarrow> indentationConsistency s = Fin 1)"
proof -
  define P where "P = (\<lambda>l. length l > 0 \<and> test (seqs [Bol, Plus ws]) l)"
  obtain tabs spaces sizes where l: "indentLoop (0, 0, []) (filter P ls) = (tabs, spaces, sizes)"
    by (metis prod_cases3)
  have m: "Math_max_spread0 maxArguments (map (\<lambda>l. int (length l)) ls)
      = Inr (foldl max 0 (map (\<lambda>l. int (length l)) ls))"
    using assms by (simp add: Math_max_spread0_within)
  have n: "Math_min_spread maxArguments (filter (\<lambda>s. s > 0) sizes)
      = Inr (case filter (\<lambda>s. s > 0) sizes of [] \<Rightarrow> PosInf | x # ys \<Rightarrow> Fin (foldl min x ys))"
    using indentSizes_within [OF assms l] by (rule Math_min_spread_within)
  have sp: "spaceIndentSizes ls = sizes"
    using l by (simp add: spaceIndentSizes_def P_def)
  show ?thesis
    unfolding extractStructuralMetrics_def Let_def P_def [symmetric] m sum.case l prod.case n sp
    by (auto simp: isFinite_round2 isFinite_js_div isFinite_Fin round2_one split: list.splits)
qed

lemma structural_raises:
  "maxArguments \<le> length ls \<Longrightarrow> extractStructuralMetrics maxArguments ls = Inl RangeError"
  by (simp add: extractStructuralMetrics_def Let_def Math_max_spread0_beyond)











lemma length_split_replicate: "length (split d (replicate n d)) = n + 1"
  by (induction n) simp_all

lemma length_split: "length (split d s) = length (filter (\<lambda>c. c = d) s) + 1"
  by (induction s) (auto split: list.splits)

lemma extraction_raises_beyond_limit:
  "maxArguments \<le> length (split CHR 0x0A code) \<Longrightarrow>
     extractFeatures maxArguments code filePath tm t = Inl RangeError"
  by (simp add: extractFeatures_def Let_def structural_raises)

lemma extraction_returns_iff:
  "(\<exists>f. extractFeatures maxArguments code filePath tm t = Inr f)
     \<longleftrightarrow> length (filter (\<lambda>c. c = CHR 0x0A) code) + 2 \<le> maxArguments"
proof (cases "length (split CHR 0x0A code) + 1 \<le> maxArguments")
  case True
  obtain sm where "extractStructuralMetrics maxArguments (split CHR 0x0A code) = Inr sm"
    using structural_total [OF True] by blast
  moreover obtain cm where "extractComplexityMetrics (split CHR 0x0A code) = Inr cm"
    using extractComplexityMetrics_lower_bound [of "split CHR 0x0A code"] by blast
  ultimately have "\<exists>f. extractFeatures maxArguments code filePath tm t = Inr f"
    by (simp add: extractFeatures_def Let_def)
  then show ?thesis using True by (simp add: length_split)
next
  case False
  then have "extractFeatures maxArguments code filePath tm t = Inl RangeError"
    by (simp add: extraction_raises_beyond_limit)
  then show ?thesis using False by (simp add: length_split)
qed

text \<open>
  Beyond the bound on the arguments of a call, extraction raises: \<open>Math.max(...lineLengths, 0)\<close>
  passes one argument per line. So extraction returns a record exactly for the texts
  with at most \<open>maxArguments - 2\<close> line feeds. On an engine that takes at most 200000
  arguments, the text of 200000 line feeds raises a RangeError; \<open>shouldAnalyze\<close> admits
  it, since it has between 100 and 1048576 characters.
\<close>

lemma many_lines_raise:
  "shouldAnalyze ''a.ts'' (int (length (lineFeeds 200000)))
   \<and> extractFeatures 200000 (lineFeeds 200000) ''a.ts'' None 0 = Inl RangeError"
proof -
  have "isCodeFile ''a.ts''"
    by (simp add: isCodeFile_def detectLanguage_def extensionPattern_def matchFirst_def
      Plus_def step1_def matched_def EXTENSION_MAP_def toLowerCase_def toLowerChar_def
      inRange_def)
  then have "shouldAnalyze ''a.ts'' (int (length (lineFeeds 200000)))"
    by (simp add: shouldAnalyze_def lineFeeds_def)
  moreover have "extractFeatures 200000 (lineFeeds 200000) ''a.ts'' None 0 = Inl RangeError"
    by (rule extraction_raises_beyond_limit) (simp add: lineFeeds_def length_split_replicate)
  ultimately show ?thesis by simp
qed





end
